theory Spec2Isabelle
  imports Complex_Main "HOL-Library.AList" "HOL-Library.Sublist" "HOL-Library.Multiset"
    "HOL-Library.Word"
begin

unbundle bit_operations_syntax

section \<open>Python values\<close>

text \<open>
  The payload is the result of \<^verbatim>\<open>json.loads\<close>: \<^verbatim>\<open>None\<close>, booleans, integers, floats,
  strings, lists and dictionaries.  Python's unbounded integers are \<open>int\<close>.  A float is its
  IEEE-754 binary64 bit pattern, so the infinities, the NaNs and both zeros are values like any
  other.  A dictionary is an association list read with \<open>map_of\<close>.
\<close>

type_synonym pyfloat = "64 word"

datatype json =
    JNull
  | JBool bool
  | JInt int
  | JFloat pyfloat
  | JStr string
  | JArr "json list"
  | JObj "(string \<times> json) list"

type_synonym dict = "(string \<times> json) list"

text \<open>The exceptions that the two exporters can meet.  \<^verbatim>\<open>IllegalCharacterError\<close> is openpyxl's.\<close>

datatype error =
    KeyError | ValueError | TypeError | AttributeError | OverflowError | IllegalCharacterError

section \<open>Coordinates and ranges\<close>

text \<open>
  A coordinate is (row, column), both counted from 1.  A cell reference such as \<^verbatim>\<open>'AB12'\<close> is
  kept as its column letters and its row.
\<close>

type_synonym coord = "nat \<times> nat"
type_synonym cell_ref = "string \<times> nat"

definition column_index_from_string :: "string \<Rightarrow> nat" where
  "column_index_from_string s = foldl (\<lambda>acc ch. acc * 26 + (of_char ch - 64)) 0 s"

definition coordinate_to_tuple :: "cell_ref \<Rightarrow> coord" where
  "coordinate_to_tuple cr = (snd cr, column_index_from_string (fst cr))"

text \<open>\<^verbatim>\<open>CellRange\<close>: the four bounds.\<close>

record cell_range =
  min_row :: nat
  min_col :: nat
  max_row :: nat
  max_col :: nat

text \<open>
  \<^verbatim>\<open>MergedCellRange\<close>: a range that a sheet has registered.  Its \<^verbatim>\<open>start_cell\<close> is a cell object,
  taken from the top-left position when the range is created.  The object keeps its own
  coordinate: \<open>start_cell\<close> is where it stands now, and \<open>bound\<close> tells whether it is still the
  cell that the sheet holds there (a placeholder written over it takes its place in the sheet,
  and the object is then no longer moved with the rows).
\<close>

record merged_cell_range = cell_range +
  start_cell :: coord
  bound :: bool

definition in_range :: "'a cell_range_scheme \<Rightarrow> coord \<Rightarrow> bool" where
  "in_range mr rc \<longleftrightarrow>
     min_row mr \<le> fst rc \<and> fst rc \<le> max_row mr \<and> min_col mr \<le> snd rc \<and> snd rc \<le> max_col mr"

text \<open>\<^verbatim>\<open>a <= b\<close> on ranges, as \<^verbatim>\<open>MultiCellRange.__contains__\<close> tests it.\<close>

definition range_subset :: "'a cell_range_scheme \<Rightarrow> 'b cell_range_scheme \<Rightarrow> bool" where
  "range_subset a b \<longleftrightarrow>
     min_row b \<le> min_row a \<and> max_row a \<le> max_row b \<and> min_col b \<le> min_col a \<and> max_col a \<le> max_col b"

section \<open>The interpreter and its library\<close>

text \<open>
  What Python and its standard library do with strings and floats is not part of the
  repository, and is a parameter of the model:
  \<^item> \<^verbatim>\<open>float(s)\<close> and \<^verbatim>\<open>int(s)\<close> of a string (\<open>None\<close> where Python raises \<^verbatim>\<open>ValueError\<close>);
  \<^item> the float nearest to an integer, and the integer part of a finite float;
  \<^item> the sum, difference and product of two floats, and what \<^verbatim>\<open>sum\<close> returns for a non-empty
    sequence of floats (the algorithm depends on the version of the interpreter);
  \<^item> \<^verbatim>\<open>str.upper\<close>, the ISO date conversion of lines 52-53, and the text an f-string produces
    for a value that is not a string;
  \<^item> the order in which a set of merged ranges is iterated once a range has been added to it
    (openpyxl keeps the ranges in a \<^verbatim>\<open>set\<close>).
\<close>

record pylib =
  float_of_str :: "string \<Rightarrow> pyfloat option"
  int_of_str :: "string \<Rightarrow> int option"
  float_of_int :: "int \<Rightarrow> pyfloat"
  int_of_float :: "pyfloat \<Rightarrow> int"
  float_add :: "pyfloat \<Rightarrow> pyfloat \<Rightarrow> pyfloat"
  float_sub :: "pyfloat \<Rightarrow> pyfloat \<Rightarrow> pyfloat"
  float_mul :: "pyfloat \<Rightarrow> pyfloat \<Rightarrow> pyfloat"
  float_sum :: "pyfloat list \<Rightarrow> pyfloat"
  str_upper :: "string \<Rightarrow> string"
  iso_to_dmy :: "string \<Rightarrow> string option"
  format_value :: "json \<Rightarrow> string"
  set_order :: "merged_cell_range list \<Rightarrow> merged_cell_range list"

definition and_then :: "error + 'a \<Rightarrow> ('a \<Rightarrow> error + 'b) \<Rightarrow> error + 'b" where
  "and_then m f = (case m of Inl e \<Rightarrow> Inl e | Inr x \<Rightarrow> f x)"

text \<open>\<^verbatim>\<open>d.get(key, default)\<close> on a dictionary.\<close>

definition dict_get :: "dict \<Rightarrow> string \<Rightarrow> json \<Rightarrow> json" where
  "dict_get d k dflt = (case map_of d k of Some v \<Rightarrow> v | None \<Rightarrow> dflt)"

text \<open>\<^verbatim>\<open>x.get(key, default)\<close> on any value: only a dictionary has the method.\<close>

fun method_get :: "json \<Rightarrow> string \<Rightarrow> json \<Rightarrow> error + json" where
  "method_get (JObj d) k dflt = Inr (dict_get d k dflt)"
| "method_get _ k dflt = Inl AttributeError"

text \<open>The bit patterns of \<^verbatim>\<open>0.0\<close>, \<^verbatim>\<open>-0.0\<close>, \<^verbatim>\<open>1.0\<close> and \<^verbatim>\<open>inf\<close>.\<close>

definition float_zero :: pyfloat where
  "float_zero = 0"

definition float_neg_zero :: pyfloat where
  "float_neg_zero = 0x8000000000000000"

definition float_one :: pyfloat where
  "float_one = 0x3FF0000000000000"

definition float_inf :: pyfloat where
  "float_inf = 0x7FF0000000000000"

text \<open>A float without its sign bit; it is infinite or a NaN when the exponent bits are all
  ones, infinite when the fraction is zero besides.\<close>

definition float_abs :: "pyfloat \<Rightarrow> pyfloat" where
  "float_abs f = f AND 0x7FFFFFFFFFFFFFFF"

definition is_inf :: "pyfloat \<Rightarrow> bool" where
  "is_inf f \<longleftrightarrow> float_abs f = float_inf"

definition is_nan :: "pyfloat \<Rightarrow> bool" where
  "is_nan f \<longleftrightarrow> float_inf < float_abs f"

text \<open>
  \<^verbatim>\<open>float(i)\<close> of an integer rounds to the nearest float, ties to even, and raises
  \<^verbatim>\<open>OverflowError\<close> when that is beyond the largest float, \<^verbatim>\<open>2**1024 - 2**971\<close>: for \<open>i\<close> of
  magnitude \<^verbatim>\<open>2**1024 - 2**970\<close> or more.
\<close>

definition float_of_int_py :: "pylib \<Rightarrow> int \<Rightarrow> error + pyfloat" where
  "float_of_int_py L i =
     (if \<bar>i\<bar> < 2 ^ 1024 - 2 ^ 970 then Inr (float_of_int L i) else Inl OverflowError)"

text \<open>\<^verbatim>\<open>float(x)\<close> and \<^verbatim>\<open>int(x)\<close>.  \<^verbatim>\<open>int\<close> of an infinity raises \<^verbatim>\<open>OverflowError\<close>, of a NaN
  \<^verbatim>\<open>ValueError\<close>.\<close>

fun float_py :: "pylib \<Rightarrow> json \<Rightarrow> error + pyfloat" where
  "float_py L JNull = Inl TypeError"
| "float_py L (JBool b) = Inr (if b then float_one else float_zero)"
| "float_py L (JInt i) = float_of_int_py L i"
| "float_py L (JFloat f) = Inr f"
| "float_py L (JStr s) = (case float_of_str L s of Some f \<Rightarrow> Inr f | None \<Rightarrow> Inl ValueError)"
| "float_py L (JArr xs) = Inl TypeError"
| "float_py L (JObj d) = Inl TypeError"

fun int_py :: "pylib \<Rightarrow> json \<Rightarrow> error + int" where
  "int_py L JNull = Inl TypeError"
| "int_py L (JBool b) = Inr (if b then 1 else 0)"
| "int_py L (JInt i) = Inr i"
| "int_py L (JFloat f) =
     (if is_inf f then Inl OverflowError
      else if is_nan f then Inl ValueError
      else Inr (int_of_float L f))"
| "int_py L (JStr s) = (case int_of_str L s of Some i \<Rightarrow> Inr i | None \<Rightarrow> Inl ValueError)"
| "int_py L (JArr xs) = Inl TypeError"
| "int_py L (JObj d) = Inl TypeError"

text \<open>Truthiness, as \<^verbatim>\<open>if x:\<close> tests it.  Of the floats, the two zeros are falsy.\<close>

fun truthy :: "json \<Rightarrow> bool" where
  "truthy JNull = False"
| "truthy (JBool b) = b"
| "truthy (JInt i) = (i \<noteq> 0)"
| "truthy (JFloat f) = (f \<noteq> float_zero \<and> f \<noteq> float_neg_zero)"
| "truthy (JStr s) = (s \<noteq> [])"
| "truthy (JArr xs) = (xs \<noteq> [])"
| "truthy (JObj d) = (d \<noteq> [])"

text \<open>\<^verbatim>\<open>needle in x\<close> for a string needle: substring, list element or dictionary key.\<close>

fun contains_py :: "string \<Rightarrow> json \<Rightarrow> error + bool" where
  "contains_py needle (JStr s) = Inr (sublist needle s)"
| "contains_py needle (JArr xs) = Inr (JStr needle \<in> set xs)"
| "contains_py needle (JObj d) = Inr (needle \<in> fst ` set d)"
| "contains_py needle _ = Inl TypeError"

text \<open>
  Numbers in arithmetic: \<^verbatim>\<open>sum\<close> of no items is the integer 0, and a branch of the source
  yields the integer 0 where the other yields a float, so both kinds are kept apart.  Integer
  arithmetic is exact.  Where one operand is a float, an integer operand is converted first
  (which may raise \<^verbatim>\<open>OverflowError\<close>), and the operation on floats is the library's; it does not
  raise.
\<close>

datatype pynum = PInt int | PFloat pyfloat

fun as_float :: "pylib \<Rightarrow> pynum \<Rightarrow> error + pyfloat" where
  "as_float L (PInt i) = float_of_int_py L i"
| "as_float L (PFloat f) = Inr f"

definition float_op :: "pylib \<Rightarrow> (pyfloat \<Rightarrow> pyfloat \<Rightarrow> pyfloat) \<Rightarrow> pynum \<Rightarrow> pynum
    \<Rightarrow> error + pynum" where
  "float_op L op a b =
     and_then (as_float L a) (\<lambda>x. and_then (as_float L b) (\<lambda>y. Inr (PFloat (op x y))))"

fun add_py :: "pylib \<Rightarrow> pynum \<Rightarrow> pynum \<Rightarrow> error + pynum" where
  "add_py L (PInt a) (PInt b) = Inr (PInt (a + b))"
| "add_py L a b = float_op L (float_add L) a b"

fun sub_py :: "pylib \<Rightarrow> pynum \<Rightarrow> pynum \<Rightarrow> error + pynum" where
  "sub_py L (PInt a) (PInt b) = Inr (PInt (a - b))"
| "sub_py L a b = float_op L (float_sub L) a b"

fun mul_py :: "pylib \<Rightarrow> pynum \<Rightarrow> pynum \<Rightarrow> error + pynum" where
  "mul_py L (PInt a) (PInt b) = Inr (PInt (a * b))"
| "mul_py L a b = float_op L (float_mul L) a b"

fun num_json :: "pynum \<Rightarrow> json" where
  "num_json (PInt i) = JInt i"
| "num_json (PFloat f) = JFloat f"

text \<open>A generator is consumed in order: the first element that raises ends it.\<close>

fun collect :: "(error + 'a) list \<Rightarrow> error + 'a list" where
  "collect [] = Inr []"
| "collect (x # xs) =
     (case x of Inl e \<Rightarrow> Inl e | Inr v \<Rightarrow> and_then (collect xs) (\<lambda>vs. Inr (v # vs)))"

text \<open>\<^verbatim>\<open>sum(float(...) for item in items)\<close>: the integer 0 for no items, else the float that the
  library's \<^verbatim>\<open>sum\<close> returns for these floats.\<close>

definition sum_py :: "pylib \<Rightarrow> (error + pyfloat) list \<Rightarrow> error + pynum" where
  "sum_py L xs =
     and_then (collect xs) (\<lambda>fs. Inr (if fs = [] then PInt 0 else PFloat (float_sum L fs)))"

section \<open>The worksheet\<close>

text \<open>
  Styles.  Fonts, protections and alignments are opaque tokens (0 is the default); of borders
  and fills only what the source constructs is distinguished from what a template may carry.
\<close>

datatype fill = NoFill | SolidFill string | TemplateFill nat
datatype border = DefaultBorder | TemplateBorder nat

record style =
  font :: nat
  border :: border
  fill :: fill
  number_format :: string
  protection :: nat
  alignment :: nat

definition default_style :: style where
  "default_style =
     \<lparr>font = 0, border = DefaultBorder, fill = NoFill, number_format = ''General'',
      protection = 0, alignment = 0\<rparr>"

text \<open>
  A cell is an ordinary cell (whether its data type is \<^verbatim>\<open>'f'\<close>, its value, its style) or the
  read-only placeholder the library keeps at every position of a merged range but the top-left
  one.  A placeholder has no value of its own: reading it gives \<^verbatim>\<open>None\<close>, writing it
  raises \<^verbatim>\<open>AttributeError\<close>.
\<close>

datatype cell =
    Cell bool json style
  | MergedCell style

fun value_of :: "cell \<Rightarrow> json" where
  "value_of (Cell f v s) = v"
| "value_of (MergedCell s) = JNull"

fun style_of :: "cell \<Rightarrow> style" where
  "style_of (Cell f v s) = s"
| "style_of (MergedCell s) = s"

fun is_formula :: "cell \<Rightarrow> bool" where
  "is_formula (Cell f v s) = f"
| "is_formula (MergedCell s) = False"

fun is_merged_cell :: "cell \<Rightarrow> bool" where
  "is_merged_cell (Cell f v s) = False"
| "is_merged_cell (MergedCell s) = True"

fun with_style :: "cell \<Rightarrow> style \<Rightarrow> cell" where
  "with_style (Cell f v s) s' = Cell f v s'"
| "with_style (MergedCell s) s' = MergedCell s'"

definition has_style :: "cell \<Rightarrow> bool" where
  "has_style c \<longleftrightarrow> style_of c \<noteq> default_style"

definition empty_cell :: cell where
  "empty_cell = Cell False JNull default_style"

text \<open>The data type a value assignment gives a cell: a string of more than one character that
  starts with \<^verbatim>\<open>=\<close> is a formula.\<close>

fun formula_text :: "json \<Rightarrow> bool" where
  "formula_text (JStr s) = (1 < length s \<and> hd s = CHR ''='')"
| "formula_text _ = False"

text \<open>The characters that \<^verbatim>\<open>ILLEGAL_CHARACTERS_RE\<close> matches: the control characters but tab,
  line feed and carriage return.\<close>

definition illegal_character :: "char \<Rightarrow> bool" where
  "illegal_character c \<longleftrightarrow>
     (of_char c :: nat) \<le> 8 \<or> (of_char c :: nat) = 11 \<or> (of_char c :: nat) = 12
     \<or> (14 \<le> (of_char c :: nat) \<and> (of_char c :: nat) \<le> 31)"

text \<open>
  What the value setter of a cell stores for a value: a string is cut after 32767 characters
  and must then hold no illegal character (\<^verbatim>\<open>IllegalCharacterError\<close>); a list or a dictionary
  cannot be stored (\<^verbatim>\<open>ValueError\<close>); \<^verbatim>\<open>None\<close>, booleans and numbers are stored as they are.
\<close>

fun check_value :: "json \<Rightarrow> error + json" where
  "check_value (JStr s) =
     (if \<exists>c \<in> set (take 32767 s). illegal_character c then Inl IllegalCharacterError
      else Inr (JStr (take 32767 s)))"
| "check_value (JArr xs) = Inl ValueError"
| "check_value (JObj d) = Inl ValueError"
| "check_value v = Inr v"

text \<open>\<^verbatim>\<open>cell.value = v\<close>.  A placeholder has no setter: the assignment raises before the value
  is looked at.\<close>

fun set_value :: "cell \<Rightarrow> json \<Rightarrow> error + cell" where
  "set_value (Cell f old s) v =
     (case check_value v of Inl e \<Rightarrow> Inl e | Inr v' \<Rightarrow> Inr (Cell (formula_text v') v' s))"
| "set_value (MergedCell s) v = Inl AttributeError"

record rule =
  rule_type :: string
  formula :: "string list"
  stopIfTrue :: bool
  dxf_border :: string

record worksheet =
  cells :: "(coord \<times> cell) list"
  merged_cells :: "merged_cell_range list"
  row_height :: "nat \<Rightarrow> real option"
  conditional_formatting :: "((cell_ref \<times> cell_ref) \<times> rule) list"

text \<open>
  \<open>cells\<close> holds the cells that exist, by coordinate; a position without a stored cell reads as
  the empty cell the library would create on access.  \<open>merged_cells\<close> holds the registered
  ranges in the order in which \<^verbatim>\<open>ws.merged_cells.ranges\<close> is iterated.
\<close>

definition cell_at :: "worksheet \<Rightarrow> coord \<Rightarrow> cell" where
  "cell_at ws rc = (case map_of (cells ws) rc of Some c \<Rightarrow> c | None \<Rightarrow> empty_cell)"

definition put_cell :: "worksheet \<Rightarrow> coord \<Rightarrow> cell \<Rightarrow> worksheet" where
  "put_cell ws rc c = ws\<lparr>cells := AList.update rc c (cells ws)\<rparr>"

text \<open>\<^verbatim>\<open>ws[coordinate].value = v\<close>.\<close>

definition assign_value :: "worksheet \<Rightarrow> coord \<Rightarrow> json \<Rightarrow> error + worksheet" where
  "assign_value ws rc v =
     (case set_value (cell_at ws rc) v of Inl e \<Rightarrow> Inl e | Inr c \<Rightarrow> Inr (put_cell ws rc c))"

text \<open>\<^verbatim>\<open>ws.max_row\<close>: the largest row that holds a cell, 1 for a sheet without cells.\<close>

definition ws_max_row :: "worksheet \<Rightarrow> nat" where
  "ws_max_row ws = foldr max (map (\<lambda>kv. fst (fst kv)) (cells ws)) 1"

subsection \<open>set_cell_value (lines 10-24)\<close>

text \<open>
  The loop of lines 15-19 takes the first range, in the order of the iteration, that contains
  the target, and writes at the coordinate of its \<^verbatim>\<open>start_cell\<close>; that write is outside the
  \<^verbatim>\<open>try\<close>.  Only the direct write of line 22 is guarded, and only against
  \<^verbatim>\<open>AttributeError\<close>.
\<close>

definition set_cell_value :: "worksheet \<Rightarrow> cell_ref \<Rightarrow> json \<Rightarrow> error + worksheet" where
  "set_cell_value ws cell_ref v =
     (case find (\<lambda>merged_range. in_range merged_range (coordinate_to_tuple cell_ref))
                (merged_cells ws) of
        Some merged_range \<Rightarrow> assign_value ws (start_cell merged_range) v
      | None \<Rightarrow>
          (case assign_value ws (coordinate_to_tuple cell_ref) v of
             Inl AttributeError \<Rightarrow> Inr ws
           | Inl e \<Rightarrow> Inl e
           | Inr ws' \<Rightarrow> Inr ws'))"

section \<open>excel_export.py\<close>

record payload =
  calculation :: dict
  items :: "dict list"
  customMappings :: "json option"
  timestamp :: "json option"

definition template_row :: nat where
  "template_row = 10"

subsection \<open>Library operations on the sheet\<close>

text \<open>
  \<^verbatim>\<open>ws.insert_rows(idx)\<close> moves every cell of row \<open>idx\<close> and below one row down.  The
  library moves cells only: the bounds of merged ranges, row heights and conditional formats
  stay where they are.  The start cell of a merged range is a cell, and moves with its row
  while the sheet still holds it.
\<close>

definition move_down :: "nat \<Rightarrow> coord \<Rightarrow> coord" where
  "move_down idx rc = (if idx \<le> fst rc then Suc (fst rc) else fst rc, snd rc)"

definition insert_rows :: "worksheet \<Rightarrow> nat \<Rightarrow> worksheet" where
  "insert_rows ws idx =
     ws\<lparr>cells := map (\<lambda>kv. (move_down idx (fst kv), snd kv)) (cells ws),
        merged_cells := map (\<lambda>mr. if bound mr then mr\<lparr>start_cell := move_down idx (start_cell mr)\<rparr>
                                   else mr) (merged_cells ws)\<rparr>"

definition range_cells :: "'a cell_range_scheme \<Rightarrow> coord list" where
  "range_cells mr =
     concat (map (\<lambda>r. map (\<lambda>c. (r, c)) [min_col mr..<Suc (max_col mr)])
                 [min_row mr..<Suc (max_row mr)])"

text \<open>
  Adding a range to the set of merged ranges gives the set a new iteration order: some
  arrangement of the same ranges.  The library's \<open>set_order\<close> is used where it is one.
\<close>

definition reorder :: "pylib \<Rightarrow> merged_cell_range list \<Rightarrow> merged_cell_range list" where
  "reorder L ms = (if mset (set_order L ms) = mset ms then set_order L ms else ms)"

text \<open>The merged range that \<^verbatim>\<open>MergedCellRange(ws, coord)\<close> builds: its start cell is the cell at
  the top-left position.\<close>

definition merged_range_of :: "cell_range \<Rightarrow> merged_cell_range" where
  "merged_range_of cr =
     \<lparr>min_row = min_row cr, min_col = min_col cr, max_row = max_row cr, max_col = max_col cr,
      start_cell = (min_row cr, min_col cr), bound = True\<rparr>"

text \<open>
  \<^verbatim>\<open>ws.merge_cells(range)\<close> registers the range unless a registered range already covers it,
  and replaces every cell of the range but the top-left one by a fresh placeholder; a start
  cell that stood at one of these positions is no longer in the sheet.  (The library also
  redraws the borders of the new range; that touches the borders of those cells only and is
  left out.)
\<close>

definition merge_cells :: "pylib \<Rightarrow> worksheet \<Rightarrow> cell_range \<Rightarrow> worksheet" where
  "merge_cells L ws cr =
     (let ws1 = (if \<exists>q \<in> set (merged_cells ws). range_subset cr q then ws
                 else ws\<lparr>merged_cells := reorder L (merged_cells ws @ [merged_range_of cr])\<rparr>);
          ws2 = ws1\<lparr>merged_cells :=
                       map (\<lambda>q. if start_cell q \<in> set (tl (range_cells cr)) then q\<lparr>bound := False\<rparr>
                                else q) (merged_cells ws1)\<rparr>
      in foldl (\<lambda>w rc. put_cell w rc (MergedCell default_style)) ws2 (tl (range_cells cr)))"

subsection \<open>Template snapshot (lines 29-39)\<close>

text \<open>
  Every formula cell of the editable view is assigned the cached value the data-only view has
  at the same coordinate.  The cells are visited in the order of the list, which for a sheet as
  loaded is the order of \<^verbatim>\<open>iter_rows\<close>; the first assignment that raises ends the loop.
\<close>

definition bake_cell :: "cell \<Rightarrow> json \<Rightarrow> error + cell" where
  "bake_cell c v = (if is_formula c then set_value c v else Inr c)"

fun bake_cells :: "worksheet \<Rightarrow> (coord \<times> cell) list \<Rightarrow> error + (coord \<times> cell) list" where
  "bake_cells ws_data [] = Inr []"
| "bake_cells ws_data (kv # rest) =
     and_then (bake_cell (snd kv) (value_of (cell_at ws_data (fst kv)))) (\<lambda>c.
     and_then (bake_cells ws_data rest) (\<lambda>rest'. Inr ((fst kv, c) # rest')))"

definition bake_formulas :: "worksheet \<Rightarrow> worksheet \<Rightarrow> error + worksheet" where
  "bake_formulas ws ws_data =
     and_then (bake_cells ws_data (cells ws)) (\<lambda>cs. Inr (ws\<lparr>cells := cs\<rparr>))"

subsection \<open>Writing a sequence of cells\<close>

text \<open>
  A run of \<^verbatim>\<open>set_cell_value(ws, ref, expr)\<close> statements: each argument is evaluated, then
  written, before the next statement starts; the first exception ends the run.
\<close>

fun set_cell_values :: "worksheet \<Rightarrow> (cell_ref \<times> (error + json)) list \<Rightarrow> error + worksheet" where
  "set_cell_values ws [] = Inr ws"
| "set_cell_values ws (w # rest) =
     (case snd w of
        Inl e \<Rightarrow> Inl e
      | Inr v \<Rightarrow> and_then (set_cell_value ws (fst w) v) (\<lambda>ws'. set_cell_values ws' rest))"

definition float_json :: "pylib \<Rightarrow> json \<Rightarrow> error + json" where
  "float_json L v = (case float_py L v of Inl e \<Rightarrow> Inl e | Inr r \<Rightarrow> Inr (JFloat r))"

definition int_json :: "pylib \<Rightarrow> json \<Rightarrow> error + json" where
  "int_json L v = (case int_py L v of Inl e \<Rightarrow> Inl e | Inr i \<Rightarrow> Inr (JInt i))"

subsection \<open>Header block (lines 46-72)\<close>

definition formatted_date :: "pylib \<Rightarrow> json \<Rightarrow> json" where
  "formatted_date L invoice_date =
     (if truthy invoice_date then
        (case invoice_date of
           JStr s \<Rightarrow> (case iso_to_dmy L s of Some d \<Rightarrow> JStr d | None \<Rightarrow> invoice_date)
         | _ \<Rightarrow> invoice_date)
      else JStr [])"

definition header_cells :: "pylib \<Rightarrow> dict \<Rightarrow> (cell_ref \<times> (error + json)) list" where
  "header_cells L calc =
     [((''B'', 2), Inr (dict_get calc ''invoice_no'' (JStr []))),
      ((''B'', 4), Inr (formatted_date L (dict_get calc ''invoice_date'' (JStr [])))),
      ((''C'', 2), Inr (JStr ''TOTAL VALUE'')),
      ((''D'', 2), float_json L (dict_get calc ''total_value'' (JInt 0))),
      ((''D'', 4), int_json L (dict_get calc ''total_quantity'' (JInt 0))),
      ((''E'', 2), Inr (JStr ''TRANSPORT COST'')),
      ((''E'', 4), Inr (JStr ''INSURANCE COST'')),
      ((''G'', 2), Inr (JStr ''STORAGE COST'')),
      ((''G'', 4), Inr (JStr ''CURRENCY -USD/TL-'')),
      ((''F'', 2), float_json L (dict_get calc ''transport_cost'' (JInt 0))),
      ((''F'', 4), float_json L (dict_get calc ''insurance_cost'' (JInt 0))),
      ((''H'', 2), float_json L (dict_get calc ''storage_cost'' (JInt 0))),
      ((''H'', 4), float_json L (dict_get calc ''currency_rate'' (JInt 0)))]"

subsection \<open>Aggregator (lines 74-97)\<close>

definition sum_field :: "pylib \<Rightarrow> string \<Rightarrow> dict list \<Rightarrow> error + pynum" where
  "sum_field L k its = sum_py L (map (\<lambda>item. float_py L (dict_get item k (JInt 0))) its)"

record totals =
  total_customs_tax :: pynum
  total_add_customs_tax :: pynum
  total_kkdf :: pynum
  total_vat :: pynum
  total_tax_usd :: pynum
  total_tax_tl :: pynum

definition aggregate :: "pylib \<Rightarrow> dict list \<Rightarrow> error + totals" where
  "aggregate L its =
     and_then (sum_field L ''customs_tax'' its) (\<lambda>a.
     and_then (sum_field L ''additional_customs_tax'' its) (\<lambda>b.
     and_then (sum_field L ''kkdf'' its) (\<lambda>c.
     and_then (sum_field L ''vat'' its) (\<lambda>d.
     and_then (sum_field L ''total_tax_usd'' its) (\<lambda>e.
     and_then (sum_field L ''total_tax_tl'' its) (\<lambda>f.
       Inr \<lparr>total_customs_tax = a, total_add_customs_tax = b, total_kkdf = c,
            total_vat = d, total_tax_usd = e, total_tax_tl = f\<rparr>))))))"

definition summary_labels :: "(cell_ref \<times> (error + json)) list" where
  "summary_labels =
     [((''A'', 6), Inr (JStr ''TOTAL CUSTOMS TAX'')),
      ((''B'', 6), Inr (JStr ''TOTAL ADD. CUSTOMS TAX'')),
      ((''C'', 6), Inr (JStr ''TOTAL KKDF'')),
      ((''D'', 6), Inr (JStr ''TOTAL VAT (KKDF INCLUDED)'')),
      ((''E'', 6), Inr (JStr ''TOTAL VAT (KKDF EXCLUDED)'')),
      ((''F'', 6), Inr (JStr ''TOTAL TAX (KKDF INCLUDED)'')),
      ((''G'', 6), Inr (JStr ''TOTAL TAX (KKDF EXCLUDED)'')),
      ((''H'', 6), Inr (JStr ''TOTAL TAX TURKISH LIRA''))]"

definition num_cell :: "error + pynum \<Rightarrow> error + json" where
  "num_cell m = and_then m (\<lambda>n. Inr (num_json n))"

definition summary_values :: "pylib \<Rightarrow> totals \<Rightarrow> (cell_ref \<times> (error + json)) list" where
  "summary_values L t =
     [((''A'', 7), Inr (num_json (total_customs_tax t))),
      ((''B'', 7), Inr (num_json (total_add_customs_tax t))),
      ((''C'', 7), Inr (num_json (total_kkdf t))),
      ((''D'', 7), num_cell (add_py L (total_vat t) (total_kkdf t))),
      ((''E'', 7), Inr (num_json (total_vat t))),
      ((''F'', 7), Inr (num_json (total_tax_usd t))),
      ((''G'', 7), num_cell (sub_py L (total_tax_usd t) (total_kkdf t))),
      ((''H'', 7), Inr (num_json (total_tax_tl t)))]"

subsection \<open>Column headers (lines 99-128)\<close>

definition column_headers :: "(cell_ref \<times> (error + json)) list" where
  "column_headers =
     [((''A'', 9), Inr (JStr ''HTS Codes'')),
      ((''B'', 9), Inr (JStr ''Country of Origin'')),
      ((''C'', 9), Inr (JStr ''Style'')),
      ((''D'', 9), Inr (JStr ''Color'')),
      ((''E'', 9), Inr (JStr ''Category'')),
      ((''F'', 9), Inr (JStr ''Description'')),
      ((''G'', 9), Inr (JStr ''Fabric Content'')),
      ((''H'', 9), Inr (JStr ''Cost'')),
      ((''I'', 9), Inr (JStr ''Unit'')),
      ((''J'', 9), Inr (JStr ''Total Value'')),
      ((''K'', 9), Inr (JStr ''TR HS CODE'')),
      ((''L'', 9), Inr (JStr ''EX REGISTRY FORM'')),
      ((''M'', 9), Inr (JStr ''AZO DYE TEST'')),
      ((''N'', 9), Inr (JStr ''SPECIAL CUSTOMS'')),
      ((''O'', 9), Inr (JStr ''TRANSPORT'')),
      ((''P'', 9), Inr (JStr ''INSURANCE'')),
      ((''Q'', 9), Inr (JStr ''STORAGE'')),
      ((''R'', 9), Inr (JStr ''CUSTOMS TAX %'')),
      ((''S'', 9), Inr (JStr ''ADDITIONAL CUSTOMS TAX %'')),
      ((''T'', 9), Inr (JStr ''KKDF %'')),
      ((''U'', 9), Inr (JStr ''VAT %'')),
      ((''V'', 9), Inr (JStr ''TOTAL CUSTOMS TAX'')),
      ((''W'', 9), Inr (JStr ''TOTAL ADDT CUSTOMS TAX'')),
      ((''X'', 9), Inr (JStr ''KKDF VALUE'')),
      ((''Y'', 9), Inr (JStr ''VAT BASE WITH KKDF'')),
      ((''Z'', 9), Inr (JStr ''VAT BASE WITHOUT KKDF'')),
      ((''AA'', 9), Inr (JStr ''VAT VALUE WITH KKDF'')),
      ((''AB'', 9), Inr (JStr ''VAT VALUE WITHOUT KKDF'')),
      ((''AC'', 9), Inr (JStr ''TOTAL TAX WITH KKDF'')),
      ((''AD'', 9), Inr (JStr ''TOTAL TAX WITHOUT KKDF''))]"

subsection \<open>Row cloner (lines 136-162)\<close>

definition copy_style :: "worksheet \<Rightarrow> coord \<Rightarrow> coord \<Rightarrow> worksheet" where
  "copy_style ws src dst =
     (let template_cell = cell_at ws src; new_cell = cell_at ws dst
      in if has_style template_cell
         then put_cell ws dst (with_style new_cell (style_of template_cell))
         else ws)"

definition clone_range :: "'a cell_range_scheme \<Rightarrow> nat \<Rightarrow> cell_range" where
  "clone_range merged_range row_num =
     \<lparr>min_row = row_num, min_col = min_col merged_range,
      max_row = row_num, max_col = max_col merged_range\<rparr>"

text \<open>The loop of lines 153-162 runs over a copy of the ranges, taken before the first is
  added.\<close>

definition clone_merged :: "pylib \<Rightarrow> worksheet \<Rightarrow> nat \<Rightarrow> worksheet" where
  "clone_merged L ws row_num =
     foldl (\<lambda>w merged_range.
              if min_row merged_range = template_row \<and> max_row merged_range = template_row
              then merge_cells L w (clone_range merged_range row_num)
              else w)
           ws (merged_cells ws)"

definition clone_row :: "pylib \<Rightarrow> worksheet \<Rightarrow> nat \<Rightarrow> worksheet" where
  "clone_row L ws row_num =
     (let ws1 = insert_rows ws row_num;
          ws2 = foldl (\<lambda>w col. copy_style w (template_row, col) (row_num, col)) ws1 [1..<31];
          ws3 = ws2\<lparr>row_height := (row_height ws2)(row_num := row_height ws2 template_row)\<rparr>
      in clone_merged L ws3 row_num)"

subsection \<open>Line-item populator (lines 164-233)\<close>

definition flag :: "bool \<Rightarrow> json" where
  "flag b = JStr (if b then ''X'' else [])"

definition item_cells :: "pylib \<Rightarrow> dict \<Rightarrow> nat \<Rightarrow> bool \<Rightarrow> bool \<Rightarrow> bool
    \<Rightarrow> (cell_ref \<times> (error + json)) list" where
  "item_cells L item row_num has_ex_registry has_azo_dye has_special =
     [((''A'', row_num), Inr (dict_get item ''hts_code'' (JStr []))),
      ((''B'', row_num), Inr (dict_get item ''country_of_origin'' (JStr []))),
      ((''C'', row_num), Inr (dict_get item ''style'' (JStr []))),
      ((''D'', row_num), Inr (dict_get item ''color'' (JStr []))),
      ((''E'', row_num), Inr (dict_get item ''category'' (JStr []))),
      ((''F'', row_num), Inr (dict_get item ''description'' (JStr []))),
      ((''G'', row_num), Inr (dict_get item ''fabric_content'' (JStr []))),
      ((''H'', row_num), float_json L (dict_get item ''cost'' (JInt 0))),
      ((''I'', row_num), int_json L (dict_get item ''unit_count'' (JInt 0))),
      ((''J'', row_num), float_json L (dict_get item ''total_value'' (JInt 0))),
      ((''K'', row_num), Inr (dict_get item ''tr_hs_code'' (JStr []))),
      ((''L'', row_num), Inr (flag has_ex_registry)),
      ((''M'', row_num), Inr (flag has_azo_dye)),
      ((''N'', row_num), Inr (flag has_special)),
      ((''O'', row_num), float_json L (dict_get item ''transport_share'' (JInt 0))),
      ((''P'', row_num), float_json L (dict_get item ''insurance_share'' (JInt 0))),
      ((''Q'', row_num), float_json L (dict_get item ''storage_share'' (JInt 0)))]"

definition percent_cells :: "pylib \<Rightarrow> json \<Rightarrow> nat \<Rightarrow> (cell_ref \<times> (error + json)) list" where
  "percent_cells L hs_code_data row_num =
     (if truthy hs_code_data then
        [((''R'', row_num),
            and_then (method_get hs_code_data ''customs_tax_percent'' (JInt 0)) (float_json L)),
         ((''S'', row_num),
            and_then (method_get hs_code_data ''additional_customs_tax_percent'' (JInt 0))
              (float_json L)),
         ((''T'', row_num),
            and_then (method_get hs_code_data ''kkdf_percent'' (JInt 0)) (float_json L)),
         ((''U'', row_num),
            and_then (method_get hs_code_data ''vat_percent'' (JInt 0)) (float_json L))]
      else
        [((''R'', row_num), Inr (JInt 0)),
         ((''S'', row_num), Inr (JInt 0)),
         ((''T'', row_num), Inr (JInt 0)),
         ((''U'', row_num), Inr (JInt 0))])"

record item_taxes =
  item_customs_tax :: pyfloat
  item_add_customs_tax :: pyfloat
  item_kkdf :: pyfloat
  item_vat :: pyfloat
  item_total_tax_usd :: pyfloat
  vat_base_with_kkdf :: pyfloat
  vat_percent :: pynum

definition vat_percent_of :: "pylib \<Rightarrow> json \<Rightarrow> error + pynum" where
  "vat_percent_of L hs_code_data =
     (if truthy hs_code_data
      then and_then (method_get hs_code_data ''vat_percent'' (JInt 0))
             (\<lambda>v. and_then (float_py L v) (\<lambda>r. Inr (PFloat r)))
      else Inr (PInt 0))"

definition taxes_of :: "pylib \<Rightarrow> dict \<Rightarrow> json \<Rightarrow> error + item_taxes" where
  "taxes_of L item hs_code_data =
     and_then (float_py L (dict_get item ''customs_tax'' (JInt 0))) (\<lambda>a.
     and_then (float_py L (dict_get item ''additional_customs_tax'' (JInt 0))) (\<lambda>b.
     and_then (float_py L (dict_get item ''kkdf'' (JInt 0))) (\<lambda>c.
     and_then (float_py L (dict_get item ''vat'' (JInt 0))) (\<lambda>d.
     and_then (float_py L (dict_get item ''total_tax_usd'' (JInt 0))) (\<lambda>e.
     and_then (float_py L (dict_get item ''vat_base'' (JInt 0))) (\<lambda>f.
     and_then (vat_percent_of L hs_code_data) (\<lambda>p.
       Inr \<lparr>item_customs_tax = a, item_add_customs_tax = b, item_kkdf = c, item_vat = d,
            item_total_tax_usd = e, vat_base_with_kkdf = f, vat_percent = p\<rparr>)))))))"

definition vat_base_without_kkdf :: "pylib \<Rightarrow> item_taxes \<Rightarrow> pyfloat" where
  "vat_base_without_kkdf L t = float_sub L (vat_base_with_kkdf t) (item_kkdf t)"

definition vat_without_kkdf :: "pylib \<Rightarrow> item_taxes \<Rightarrow> error + pynum" where
  "vat_without_kkdf L t = mul_py L (PFloat (vat_base_without_kkdf L t)) (vat_percent t)"

text \<open>Lines 212-221.  The product of line 210 is computed before the first of these writes.\<close>

definition tax_cells :: "pylib \<Rightarrow> item_taxes \<Rightarrow> pynum \<Rightarrow> nat
    \<Rightarrow> (cell_ref \<times> (error + json)) list" where
  "tax_cells L t vat_without row_num =
     [((''V'', row_num), Inr (JFloat (item_customs_tax t))),
      ((''W'', row_num), Inr (JFloat (item_add_customs_tax t))),
      ((''X'', row_num), Inr (JFloat (item_kkdf t))),
      ((''Y'', row_num), Inr (JFloat (vat_base_with_kkdf t))),
      ((''Z'', row_num), Inr (JFloat (vat_base_without_kkdf L t))),
      ((''AA'', row_num), Inr (JFloat (item_vat t))),
      ((''AB'', row_num), Inr (num_json vat_without)),
      ((''AC'', row_num), Inr (JFloat (item_total_tax_usd t))),
      ((''AD'', row_num), Inr (JFloat (float_sub L (item_total_tax_usd t) (item_kkdf t))))]"

definition gray_fill :: fill where
  "gray_fill = SolidFill ''FFD3D3D3''"

definition white_fill :: fill where
  "white_fill = SolidFill ''FFFFFFFF''"

definition with_fill :: "cell \<Rightarrow> fill \<Rightarrow> cell" where
  "with_fill c f = with_style c ((style_of c)\<lparr>fill := f\<rparr>)"

definition fill_row :: "worksheet \<Rightarrow> nat \<Rightarrow> fill \<Rightarrow> worksheet" where
  "fill_row ws row_num f =
     foldl (\<lambda>w col. put_cell w (row_num, col) (with_fill (cell_at w (row_num, col)) f))
           ws [1..<31]"

definition process_item :: "pylib \<Rightarrow> worksheet \<Rightarrow> nat \<Rightarrow> dict \<Rightarrow> error + worksheet" where
  "process_item L ws index item =
     (let row_num = 10 + index;
          ws1 = (if 0 < index then clone_row L ws row_num else ws);
          requirements = dict_get item ''requirements'' (JStr [])
      in and_then (contains_py ''EX REGISTRY FORM'' requirements) (\<lambda>has_ex_registry.
         and_then (contains_py ''AZO DYE TEST'' requirements) (\<lambda>has_azo_dye.
         and_then (contains_py ''SPECIAL CUSTOM'' requirements) (\<lambda>has_special.
         and_then (set_cell_values ws1
                     (item_cells L item row_num has_ex_registry has_azo_dye has_special)) (\<lambda>ws2.
         let hs_code_data = dict_get item ''hs_code_data'' JNull
         in and_then (set_cell_values ws2 (percent_cells L hs_code_data row_num)) (\<lambda>ws3.
            and_then (taxes_of L item hs_code_data) (\<lambda>t.
            and_then (vat_without_kkdf L t) (\<lambda>vat_without.
            and_then (set_cell_values ws3 (tax_cells L t vat_without row_num)) (\<lambda>ws4.
              Inr (fill_row ws4 row_num
                     (if index mod 2 = 0 then gray_fill else white_fill)))))))))))"

text \<open>The loop \<^verbatim>\<open>for index, item in enumerate(items)\<close>, entered at \<open>index\<close>.\<close>

fun process_items :: "pylib \<Rightarrow> worksheet \<Rightarrow> nat \<Rightarrow> dict list \<Rightarrow> error + worksheet" where
  "process_items L ws index [] = Inr ws"
| "process_items L ws index (item # rest) =
     and_then (process_item L ws index item) (\<lambda>ws'. process_items L ws' (Suc index) rest)"

subsection \<open>Formatting scrubber (lines 235-277)\<close>

definition scrub_cell :: "cell \<Rightarrow> cell" where
  "scrub_cell c =
     (case c of
        Cell f v s \<Rightarrow>
          (if truthy v then Cell False JNull (s\<lparr>border := DefaultBorder, fill := NoFill\<rparr>)
           else Cell f v (s\<lparr>border := DefaultBorder, fill := NoFill\<rparr>))
      | MergedCell s \<Rightarrow> MergedCell (s\<lparr>border := DefaultBorder, fill := NoFill\<rparr>))"

text \<open>
  \<^verbatim>\<open>for row in ws.iter_rows(min_row, max_row, min_col, max_col): for cell in row: ...\<close> with the
  body of the three scrub loops.  The iteration creates the cells the rectangle lacks; they
  are empty cells, which the body leaves as they are, so only stored cells are visited.
\<close>

definition scrub_rows :: "worksheet \<Rightarrow> nat \<Rightarrow> nat \<Rightarrow> nat \<Rightarrow> nat \<Rightarrow> worksheet" where
  "scrub_rows ws min_r max_r min_c max_c =
     ws\<lparr>cells := map (\<lambda>kv. if min_r \<le> fst (fst kv) \<and> fst (fst kv) \<le> max_r
                               \<and> min_c \<le> snd (fst kv) \<and> snd (fst kv) \<le> max_c
                            then (fst kv, scrub_cell (snd kv)) else kv) (cells ws)\<rparr>"

definition white_rule :: rule where
  "white_rule =
     \<lparr>rule_type = ''expression'', formula = [''TRUE''], stopIfTrue = False,
      dxf_border = ''FFFFFFFF''\<rparr>"

definition add_rule :: "worksheet \<Rightarrow> cell_ref \<times> cell_ref \<Rightarrow> rule \<Rightarrow> worksheet" where
  "add_rule ws rng r = ws\<lparr>conditional_formatting := conditional_formatting ws @ [(rng, r)]\<rparr>"

definition scrub :: "worksheet \<Rightarrow> nat \<Rightarrow> worksheet" where
  "scrub ws last_data_row =
     (let start_row = last_data_row + 1;
          ws1 = scrub_rows ws start_row (min (ws_max_row ws) 6000) 1 30;
          ws2 = add_rule ws1 ((''A'', start_row), (''AD'', 6000)) white_rule;
          ws3 = scrub_rows ws2 1 7 29 78;
          ws4 = add_rule ws3 ((''AC'', 1), (''BZ'', 7)) white_rule;
          ws5 = scrub_rows ws4 1 (min (ws_max_row ws4) 6000) 31 78
      in add_rule ws5 ((''AE'', 1), (''BZ'', 6000)) white_rule)"

subsection \<open>export_excel (lines 26-282)\<close>

definition fstring :: "pylib \<Rightarrow> json \<Rightarrow> string" where
  "fstring L v = (case v of JStr s \<Rightarrow> s | _ \<Rightarrow> format_value L v)"

text \<open>
  The two views of the template are arguments; the result is the path and the sheet that
  \<^verbatim>\<open>wb.save\<close> writes.  An exception anywhere leaves no file: the result is \<open>Inl\<close>.
\<close>

definition export_excel :: "pylib \<Rightarrow> worksheet \<Rightarrow> worksheet \<Rightarrow> payload
    \<Rightarrow> error + (string \<times> worksheet)" where
  "export_excel L template ws_data data =
     and_then (bake_formulas template ws_data) (\<lambda>ws.
     let calc = calculation data;
         its = items data
     in and_then (set_cell_values ws (header_cells L calc)) (\<lambda>ws.
        and_then (aggregate L its) (\<lambda>t.
        and_then (set_cell_values ws (summary_labels @ summary_values L t @ column_headers)) (\<lambda>ws.
        let last_data_row = 10 + length its - 1
        in and_then (process_items L ws 0 its) (\<lambda>ws.
           Inr (''/tmp/tax_calculation_''
                  @ fstring L (dict_get calc ''reference'' (JStr ''export'')) @ ''.xlsx'',
                scrub ws last_data_row))))))"

section \<open>excel_beyanname_export.py\<close>

definition DEFAULT_COUNTRY_CODE_MAPPING :: dict where
  "DEFAULT_COUNTRY_CODE_MAPPING =
     [(''CN'', JStr ''720''), (''ID'', JStr ''700''), (''KH'', JStr ''696''),
      (''VN'', JStr ''690''), (''US'', JStr ''400''), (''TW'', JStr ''736''),
      (''IT'', JStr ''005''), (''RO'', JStr ''066''), (''JO'', JStr ''628''),
      (''NI'', JStr ''432''), (''AQ'', JStr ''891''), (''TH'', JStr ''680''),
      (''LK'', JStr ''669''), (''AL'', JStr ''070''), (''SG'', JStr ''706''),
      (''GT'', JStr ''416''), (''CO'', JStr ''480''), (''CM'', JStr ''302''),
      (''PH'', JStr ''708''), (''TR'', JStr ''052''), (''CA'', JStr ''404''),
      (''SV'', JStr ''428''), (''HK'', JStr ''740'')]"

text \<open>
  \<^verbatim>\<open>{**a, **b}\<close> builds a new dictionary and leaves \<open>a\<close> and \<open>b\<close> as they are.  Read with
  \<open>map_of\<close>, the entries of \<open>b\<close> stand first, so \<open>b\<close> wins on a key of both.
\<close>

definition dict_merge :: "dict \<Rightarrow> dict \<Rightarrow> dict" where
  "dict_merge a b = b @ a"

text \<open>Lines 49-50, with the module-level table as \<open>defaults\<close>.  Unpacking a value that is no
  dictionary raises.\<close>

definition country_code_mapping :: "dict \<Rightarrow> payload \<Rightarrow> error + dict" where
  "country_code_mapping defaults data =
     (case (case customMappings data of None \<Rightarrow> JObj [] | Some v \<Rightarrow> v) of
        JObj custom_mappings \<Rightarrow> Inr (dict_merge defaults custom_mappings)
      | _ \<Rightarrow> Inl TypeError)"

text \<open>Line 86: the lookup is made with the upper-cased code (\<^verbatim>\<open>str.upper\<close> is the library's),
  and only for a truthy \<^verbatim>\<open>country_of_origin\<close>; a truthy value that is no string has no
  \<^verbatim>\<open>upper\<close>.\<close>

definition country_code_3digit :: "pylib \<Rightarrow> dict \<Rightarrow> json \<Rightarrow> error + json" where
  "country_code_3digit L mapping country_of_origin =
     (if truthy country_of_origin then
        (case country_of_origin of
           JStr s \<Rightarrow> Inr (dict_get mapping (str_upper L s) (JStr []))
         | _ \<Rightarrow> Inl AttributeError)
      else Inr (JStr []))"

text \<open>\<^verbatim>\<open>x.get(key, default) if x else default\<close>.\<close>

definition get_if :: "json \<Rightarrow> string \<Rightarrow> json \<Rightarrow> error + json" where
  "get_if x k dflt = (if truthy x then method_get x k dflt else Inr dflt)"

text \<open>\<^verbatim>\<open>' '.join(parts)\<close>: every part has to be a string.\<close>

fun join_py :: "json list \<Rightarrow> error + string" where
  "join_py [] = Inr []"
| "join_py [JStr s] = Inr s"
| "join_py (JStr s # rest) = and_then (join_py rest) (\<lambda>t. Inr (s @ '' '' @ t))"
| "join_py (_ # rest) = Inl TypeError"

record beyanname_row =
  row_tr_hs_code :: json
  row_total_value :: pynum
  row_unit :: json
  row_brand :: json
  row_unit_count :: int
  row_country_code :: json
  row_tanim :: string
  row_vat_percent :: pynum

text \<open>Lines 61-104: what is computed for one item before anything is written.\<close>

definition beyanname_values :: "pylib \<Rightarrow> dict \<Rightarrow> dict \<Rightarrow> error + beyanname_row" where
  "beyanname_values L mapping item =
     (let tr_hs_code = dict_get item ''tr_hs_code'' (JStr [])
      in and_then (float_py L (dict_get item ''cost'' (JInt 0))) (\<lambda>cost.
         and_then (int_py L (dict_get item ''unit_count'' (JInt 0))) (\<lambda>unit_count.
         and_then (mul_py L (PFloat cost) (PInt unit_count)) (\<lambda>total_value.
         let hs_code_data = dict_get item ''hs_code_data'' (JObj [])
         in and_then (get_if hs_code_data ''unit'' (JStr [])) (\<lambda>unit.
            and_then (get_if hs_code_data ''description_tr'' (JStr [])) (\<lambda>description_tr.
            and_then (if truthy hs_code_data
                      then and_then (method_get hs_code_data ''vat_percent'' (JInt 0))
                             (\<lambda>v. and_then (float_py L v) (\<lambda>r. Inr (PFloat r)))
                      else Inr (PInt 0)) (\<lambda>vat_percent_decimal.
            and_then (mul_py L vat_percent_decimal (PInt 100)) (\<lambda>vat_percent.
            let product_data = dict_get item ''product_data'' (JObj [])
            in and_then (get_if product_data ''brand'' (JStr [])) (\<lambda>brand.
               and_then (get_if product_data ''item_description'' (JStr [])) (\<lambda>item_description.
               and_then (country_code_3digit L mapping
                           (dict_get item ''country_of_origin'' (JStr []))) (\<lambda>code.
               and_then (join_py (filter truthy
                           [dict_get item ''style'' (JStr []), description_tr, item_description,
                            dict_get item ''fabric_content'' (JStr [])])) (\<lambda>tanim.
                 Inr \<lparr>row_tr_hs_code = tr_hs_code, row_total_value = total_value,
                      row_unit = unit, row_brand = brand, row_unit_count = unit_count,
                      row_country_code = code, row_tanim = tanim,
                      row_vat_percent = vat_percent\<rparr>))))))))))))"

text \<open>A run of \<^verbatim>\<open>ws[ref] = v\<close> statements; writing a placeholder raises and ends the run.\<close>

fun assign_values :: "worksheet \<Rightarrow> (cell_ref \<times> json) list \<Rightarrow> error + worksheet" where
  "assign_values ws [] = Inr ws"
| "assign_values ws (w # rest) =
     and_then (assign_value ws (coordinate_to_tuple (fst w)) (snd w))
       (\<lambda>ws'. assign_values ws' rest)"

definition set_number_format :: "worksheet \<Rightarrow> coord \<Rightarrow> string \<Rightarrow> worksheet" where
  "set_number_format ws rc nf =
     put_cell ws rc (with_style (cell_at ws rc) ((style_of (cell_at ws rc))\<lparr>number_format := nf\<rparr>))"

text \<open>Lines 107-125.\<close>

definition write_beyanname_row :: "worksheet \<Rightarrow> nat \<Rightarrow> beyanname_row \<Rightarrow> error + worksheet" where
  "write_beyanname_row ws row_num r =
     and_then (assign_values ws
                 [((''A'', row_num), row_tr_hs_code r),
                  ((''B'', row_num), num_json (row_total_value r)),
                  ((''C'', row_num), row_country_code r)]) (\<lambda>ws1.
     assign_values (set_number_format ws1 (coordinate_to_tuple (''C'', row_num)) ''@'')
       [((''D'', row_num), row_unit r),
        ((''E'', row_num), JStr ''1''),
        ((''F'', row_num), JStr ''BI''),
        ((''G'', row_num), row_brand r),
        ((''H'', row_num), JInt (row_unit_count r)),
        ((''I'', row_num), JStr ''K1''),
        ((''J'', row_num), JStr ''9''),
        ((''K'', row_num), JStr []),
        ((''L'', row_num), JStr ''11''),
        ((''M'', row_num), JStr (row_tanim r)),
        ((''N'', row_num), num_json (row_vat_percent r)),
        ((''O'', row_num), JStr ''-'')])"

text \<open>The loop of line 57, entered at \<open>index\<close>; \<open>start_row\<close> is 2.\<close>

fun beyanname_items :: "pylib \<Rightarrow> dict \<Rightarrow> worksheet \<Rightarrow> nat \<Rightarrow> dict list \<Rightarrow> error + worksheet" where
  "beyanname_items L mapping ws index [] = Inr ws"
| "beyanname_items L mapping ws index (item # rest) =
     and_then (beyanname_values L mapping item) (\<lambda>r.
     and_then (write_beyanname_row ws (2 + index) r) (\<lambda>ws'.
       beyanname_items L mapping ws' (Suc index) rest))"

text \<open>
  The function reads the module-level table and nothing else of the module's state.  The
  table is an argument here, and the first component of the result is the table as the call
  leaves it: no statement assigns to it or calls a method that changes it, whether the call
  returns or raises.  The second component is the path and the sheet that \<^verbatim>\<open>wb.save\<close> writes.
\<close>

definition export_beyanname_excel :: "pylib \<Rightarrow> dict \<Rightarrow> worksheet \<Rightarrow> payload
    \<Rightarrow> dict \<times> (error + (string \<times> worksheet))" where
  "export_beyanname_excel L defaults template data =
     (defaults,
      and_then (country_code_mapping defaults data) (\<lambda>mapping.
      and_then (beyanname_items L mapping template 0 (items data)) (\<lambda>ws.
        Inr (''/tmp/beyanname_''
               @ fstring L (dict_get (calculation data) ''reference'' (JStr ''export'')) @ ''_''
               @ fstring L (case timestamp data of None \<Rightarrow> JStr [] | Some v \<Rightarrow> v) @ ''.xlsx'',
             ws))))"

section \<open>Properties\<close>

subsection \<open>Numeric fields of an item\<close>

definition aggregated_fields :: "string list" where
  "aggregated_fields =
     [''customs_tax'', ''additional_customs_tax'', ''kkdf'', ''vat'', ''total_tax_usd'',
      ''total_tax_tl'']"

definition row_float_fields :: "string list" where
  "row_float_fields =
     [''cost'', ''total_value'', ''transport_share'', ''insurance_share'', ''storage_share'']"

definition float_fields :: "string list" where
  "float_fields = row_float_fields @ aggregated_fields @ [''vat_base'']"

definition percent_fields :: "string list" where
  "percent_fields =
     [''customs_tax_percent'', ''additional_customs_tax_percent'', ''kkdf_percent'',
      ''vat_percent'']"

text \<open>An item has a numeric field that is present and that \<^verbatim>\<open>float\<close> (for \<^verbatim>\<open>unit_count\<close>:
  \<^verbatim>\<open>int\<close>) rejects.  The percentages are fields of the nested \<^verbatim>\<open>hs_code_data\<close>.\<close>

definition uncoercible :: "pylib \<Rightarrow> dict \<Rightarrow> bool" where
  "uncoercible L item \<longleftrightarrow>
     (\<exists>k \<in> set float_fields. \<exists>v. map_of item k = Some v \<and> isl (float_py L v))
   \<or> (\<exists>v. map_of item ''unit_count'' = Some v \<and> isl (int_py L v))
   \<or> (\<exists>d. map_of item ''hs_code_data'' = Some (JObj d)
          \<and> (\<exists>k \<in> set percent_fields. \<exists>v. map_of d k = Some v \<and> isl (float_py L v)))"

subsection \<open>Values that a cell can hold\<close>

definition storable :: "json \<Rightarrow> bool" where
  "storable v \<longleftrightarrow> \<not> isl (check_value v)"

text \<open>What a cell holds once a storable value has been assigned to it.\<close>

definition stored :: "json \<Rightarrow> json" where
  "stored v = (case check_value v of Inr v' \<Rightarrow> v' | Inl e \<Rightarrow> v)"

subsection \<open>Runs of the static-template exporter\<close>

text \<open>The values of a row that are written as they come from the payload can be held by a
  cell.\<close>

definition row_storable :: "beyanname_row \<Rightarrow> bool" where
  "row_storable r \<longleftrightarrow>
     storable (row_tr_hs_code r) \<and> storable (row_country_code r) \<and> storable (row_unit r)
     \<and> storable (row_brand r) \<and> storable (JStr (row_tanim r))"

text \<open>
  What a run needs in order to return: the override map can be unpacked, the values of every
  item can be computed and stored, and the template has no read-only placeholder in columns
  A-O of the rows that are written.
\<close>

definition beyanname_ok :: "pylib \<Rightarrow> worksheet \<Rightarrow> payload \<Rightarrow> bool" where
  "beyanname_ok L template data \<longleftrightarrow>
     \<not> isl (country_code_mapping DEFAULT_COUNTRY_CODE_MAPPING data)
   \<and> (\<forall>item \<in> set (items data).
         \<not> isl (beyanname_values L
                  (projr (country_code_mapping DEFAULT_COUNTRY_CODE_MAPPING data)) item)
         \<and> row_storable (projr (beyanname_values L
                  (projr (country_code_mapping DEFAULT_COUNTRY_CODE_MAPPING data)) item)))
   \<and> (\<forall>r \<in> set [2..<2 + length (items data)]. \<forall>c \<in> set [1..<16].
         \<not> is_merged_cell (cell_at template (r, c)))"

section \<open>Properties of the generated sheet\<close>

subsection \<open>Merged ranges\<close>

text \<open>A coordinate lies inside a registered merged range.\<close>

definition covered :: "worksheet \<Rightarrow> coord \<Rightarrow> bool" where
  "covered ws rc \<longleftrightarrow> (\<exists>mr \<in> set (merged_cells ws). in_range mr rc)"

text \<open>A range whose row span is exactly the template row: the test of line 154.\<close>

definition on_template_row :: "'a cell_range_scheme \<Rightarrow> bool" where
  "on_template_row mr \<longleftrightarrow> min_row mr = template_row \<and> max_row mr = template_row"

text \<open>The start cell of every merged range is an ordinary cell, as \<^verbatim>\<open>merge_cells\<close> leaves it.\<close>

definition anchors_ok :: "worksheet \<Rightarrow> bool" where
  "anchors_ok ws \<longleftrightarrow> (\<forall>mr \<in> set (merged_cells ws). \<not> is_merged_cell (cell_at ws (start_cell mr)))"

text \<open>The start cell of every merged range stands at its top-left position: none has been moved
  away by an inserted row.\<close>

definition top_left_starts :: "worksheet \<Rightarrow> bool" where
  "top_left_starts ws \<longleftrightarrow>
     (\<forall>mr \<in> set (merged_cells ws). start_cell mr = (min_row mr, min_col mr))"

text \<open>Two sheets with the same merged ranges, the same rules and placeholders at the same
  coordinates.\<close>

definition same_shape :: "worksheet \<Rightarrow> worksheet \<Rightarrow> bool" where
  "same_shape ws ws' \<longleftrightarrow>
     merged_cells ws' = merged_cells ws
   \<and> conditional_formatting ws' = conditional_formatting ws
   \<and> (\<forall>rc. is_merged_cell (cell_at ws' rc) = is_merged_cell (cell_at ws rc))"

text \<open>Regions that reach row \<open>r\<close> start on row \<open>r\<close>.\<close>

definition row_closed :: "worksheet \<Rightarrow> nat \<Rightarrow> bool" where
  "row_closed ws r \<longleftrightarrow>
     (\<forall>mr \<in> set (merged_cells ws). min_row mr \<le> r \<and> r \<le> max_row mr \<longrightarrow> min_row mr = r)"

text \<open>The ranges that the loop has registered once the rows below \<open>n\<close> are written: for each
  inserted row, one copy of each template-row range.\<close>

definition cloned_ranges :: "merged_cell_range list \<Rightarrow> nat \<Rightarrow> merged_cell_range list" where
  "cloned_ranges M n =
     concat (map (\<lambda>r. map (\<lambda>mr. merged_range_of (clone_range mr r)) (filter on_template_row M))
                 [11..<n])"

text \<open>What is asked of the merged ranges of a template: no range twice, none empty, each with
  its start cell at its top-left position, each either above the template row or exactly on
  it, and those on it apart from each other.\<close>

definition regions_ok :: "merged_cell_range list \<Rightarrow> bool" where
  "regions_ok M \<longleftrightarrow>
     distinct M
   \<and> (\<forall>mr \<in> set M. min_row mr \<le> max_row mr \<and> min_col mr \<le> max_col mr
         \<and> start_cell mr = (min_row mr, min_col mr)
         \<and> (max_row mr < template_row \<or> on_template_row mr))
   \<and> (\<forall>a \<in> set M. \<forall>b \<in> set M. on_template_row a \<and> on_template_row b \<and> a \<noteq> b \<longrightarrow>
         max_col a < min_col b \<or> max_col b < min_col a)"

text \<open>A template as \<^verbatim>\<open>load_workbook\<close> gives it: placeholders only inside merged ranges, and an
  ordinary cell at each anchor.\<close>

definition template_ok :: "worksheet \<Rightarrow> bool" where
  "template_ok ws \<longleftrightarrow>
     regions_ok (merged_cells ws)
   \<and> (\<forall>kv \<in> set (cells ws). is_merged_cell (snd kv) \<longrightarrow> covered ws (fst kv))
   \<and> anchors_ok ws"

text \<open>No template-row range reaches column \<open>c\<close>.\<close>

definition column_free :: "merged_cell_range list \<Rightarrow> nat \<Rightarrow> bool" where
  "column_free M c \<longleftrightarrow>
     (\<forall>mr \<in> set M. on_template_row mr \<longrightarrow> c < min_col mr \<or> max_col mr < c)"

text \<open>The sheet on entry to the pass for item \<open>k\<close>.\<close>

definition loop_inv :: "merged_cell_range list \<Rightarrow> worksheet \<Rightarrow> nat \<Rightarrow> bool" where
  "loop_inv M ws k \<longleftrightarrow>
     mset (merged_cells ws) = mset (M @ cloned_ranges M (10 + k))
   \<and> (\<forall>rc. is_merged_cell (cell_at ws rc) \<longrightarrow> covered ws rc)
   \<and> anchors_ok ws"

text \<open>What the snapshot loop leaves of a cell, where it does not raise.\<close>

definition baked :: "cell \<Rightarrow> json \<Rightarrow> cell" where
  "baked c v = (case bake_cell c v of Inr c' \<Rightarrow> c' | Inl e \<Rightarrow> c)"

subsection \<open>What a row receives\<close>

text \<open>Everything the populator writes for one item on row \<open>r\<close>, in column order
  (lines 164-221).\<close>

definition row_cells :: "pylib \<Rightarrow> dict \<Rightarrow> nat \<Rightarrow> bool \<Rightarrow> bool \<Rightarrow> bool \<Rightarrow> item_taxes \<Rightarrow> pynum
    \<Rightarrow> (cell_ref \<times> (error + json)) list" where
  "row_cells L item r a b c t vat_without =
     item_cells L item r a b c @ percent_cells L (dict_get item ''hs_code_data'' JNull) r
       @ tax_cells L t vat_without r"

definition item_row :: "pylib \<Rightarrow> dict \<Rightarrow> nat \<Rightarrow> error + (cell_ref \<times> (error + json)) list" where
  "item_row L item r =
     (let requirements = dict_get item ''requirements'' (JStr [])
      in and_then (contains_py ''EX REGISTRY FORM'' requirements) (\<lambda>has_ex_registry.
         and_then (contains_py ''AZO DYE TEST'' requirements) (\<lambda>has_azo_dye.
         and_then (contains_py ''SPECIAL CUSTOM'' requirements) (\<lambda>has_special.
         and_then (taxes_of L item (dict_get item ''hs_code_data'' JNull)) (\<lambda>t.
         and_then (vat_without_kkdf L t) (\<lambda>vat_without.
           Inr (row_cells L item r has_ex_registry has_azo_dye has_special t vat_without)))))))"

text \<open>A statement \<^verbatim>\<open>set_cell_value(ws, ref, expr)\<close> whose expression evaluates to a value that a
  cell can hold.\<close>

definition writable :: "cell_ref \<times> (error + json) \<Rightarrow> bool" where
  "writable w \<longleftrightarrow> \<not> isl (snd w) \<and> storable (projr (snd w))"

text \<open>The item raises nowhere in the loop body, and its aggregated fields are numbers.\<close>

definition item_ok :: "pylib \<Rightarrow> dict \<Rightarrow> bool" where
  "item_ok L item \<longleftrightarrow>
     (\<forall>r. \<exists>cs. item_row L item r = Inr cs \<and> (\<forall>w \<in> set cs. writable w))
   \<and> (\<forall>k \<in> set aggregated_fields. \<not> isl (float_py L (dict_get item k (JInt 0))))"

definition payload_ok :: "pylib \<Rightarrow> payload \<Rightarrow> bool" where
  "payload_ok L data \<longleftrightarrow>
     (\<forall>w \<in> set (header_cells L (calculation data)). writable w)
   \<and> (\<forall>item \<in> set (items data). item_ok L item)"

subsection \<open>Scrubbed regions and sums\<close>

text \<open>The three rectangles of lines 239-273, the first from \<open>start_row\<close>.\<close>

definition in_scrub :: "nat \<Rightarrow> coord \<Rightarrow> bool" where
  "in_scrub start_row rc \<longleftrightarrow>
     (start_row \<le> fst rc \<and> fst rc \<le> 6000 \<and> 1 \<le> snd rc \<and> snd rc \<le> 30)
   \<or> (1 \<le> fst rc \<and> fst rc \<le> 7 \<and> 29 \<le> snd rc \<and> snd rc \<le> 78)
   \<or> (1 \<le> fst rc \<and> fst rc \<le> 6000 \<and> 31 \<le> snd rc \<and> snd rc \<le> 78)"

text \<open>The same rectangles as the range strings handed to \<^verbatim>\<open>conditional_formatting.add\<close>.\<close>

definition scrub_ranges :: "nat \<Rightarrow> (cell_ref \<times> cell_ref) list" where
  "scrub_ranges n =
     [((''A'', 10 + n), (''AD'', 6000)), ((''AC'', 1), (''BZ'', 7)), ((''AE'', 1), (''BZ'', 6000))]"

definition in_ref_range :: "cell_ref \<times> cell_ref \<Rightarrow> coord \<Rightarrow> bool" where
  "in_ref_range rg rc \<longleftrightarrow>
     fst (coordinate_to_tuple (fst rg)) \<le> fst rc \<and> fst rc \<le> fst (coordinate_to_tuple (snd rg))
   \<and> snd (coordinate_to_tuple (fst rg)) \<le> snd rc \<and> snd rc \<le> snd (coordinate_to_tuple (snd rg))"

text \<open>The floats \<^verbatim>\<open>float(item.get(k, 0))\<close> of the items, in order, and what \<^verbatim>\<open>sum\<close> makes of a
  sequence of floats.\<close>

definition field_floats :: "pylib \<Rightarrow> string \<Rightarrow> dict list \<Rightarrow> pyfloat list" where
  "field_floats L k its = map (\<lambda>item. projr (float_py L (dict_get item k (JInt 0)))) its"

definition sum_of :: "pylib \<Rightarrow> pyfloat list \<Rightarrow> pynum" where
  "sum_of L fs = (if fs = [] then PInt 0 else PFloat (float_sum L fs))"

section \<open>Example inputs\<close>

text \<open>The floats that the examples use, by their bit patterns.\<close>

definition f_2 :: pyfloat where "f_2 = 0x4000000000000000"
definition f_3 :: pyfloat where "f_3 = 0x4008000000000000"
definition f_5 :: pyfloat where "f_5 = 0x4014000000000000"
definition f_minus_5 :: pyfloat where "f_minus_5 = 0xC014000000000000"
definition f_7 :: pyfloat where "f_7 = 0x401C000000000000"
definition f_9_5 :: pyfloat where "f_9_5 = 0x4023000000000000"
definition f_12_5 :: pyfloat where "f_12_5 = 0x4029000000000000"
definition f_21 :: pyfloat where "f_21 = 0x4035000000000000"
definition f_37_5 :: pyfloat where "f_37_5 = 0x4042C00000000000"
definition f_95 :: pyfloat where "f_95 = 0x4057C00000000000"
definition f_100 :: pyfloat where "f_100 = 0x4059000000000000"
definition f_0_1 :: pyfloat where "f_0_1 = 0x3FB999999999999A"
definition f_nan :: pyfloat where "f_nan = 0x7FF8000000000000"

text \<open>A table of results, read with a default.\<close>

definition table_get :: "('a \<times> 'b) list \<Rightarrow> 'b \<Rightarrow> 'a \<Rightarrow> 'b" where
  "table_get t dflt x = (case map_of t x of Some y \<Rightarrow> y | None \<Rightarrow> dflt)"

text \<open>
  A library that knows the conversions and the results that the examples use, as Python
  computes them, and answers NaN elsewhere.  It upper-cases the ASCII letters, and iterates a
  set of ranges in the order in which they were added.
\<close>

definition upper_char :: "char \<Rightarrow> char" where
  "upper_char c =
     (if 97 \<le> (of_char c :: nat) \<and> (of_char c :: nat) \<le> 122
      then char_of ((of_char c :: nat) - 32) else c)"

definition lib0 :: pylib where
  "lib0 =
     \<lparr>float_of_str = (\<lambda>s. if s = ''12.5'' then Some f_12_5 else None),
      int_of_str = (\<lambda>s. if s = ''3'' then Some 3 else None),
      float_of_int = table_get [(0, float_zero), (2, f_2), (3, f_3), (100, f_100)] f_nan,
      int_of_float = table_get [(float_zero, 0), (f_3, 3)] 0,
      float_add = (\<lambda>a b. table_get [((float_zero, f_5), f_5)] f_nan (a, b)),
      float_sub = (\<lambda>a b. table_get [((f_100, f_5), f_95), ((float_zero, f_5), f_minus_5),
                                      ((float_zero, float_zero), float_zero)] f_nan (a, b)),
      float_mul = (\<lambda>a b. table_get [((f_95, f_0_1), f_9_5), ((f_12_5, f_3), f_37_5),
                                      ((f_7, f_3), f_21),
                                      ((float_zero, float_zero), float_zero)] f_nan (a, b)),
      float_sum = table_get [([f_2, f_3], f_5), ([f_5, float_zero], f_5),
                             ([float_zero, float_zero], float_zero)] f_nan,
      str_upper = map upper_char,
      iso_to_dmy = (\<lambda>s. None),
      format_value = (\<lambda>v. ''None''),
      set_order = (\<lambda>ms. ms)\<rparr>"

definition blank_sheet :: worksheet where
  "blank_sheet = \<lparr>cells = [], merged_cells = [], row_height = (\<lambda>r. None),
                  conditional_formatting = []\<rparr>"

definition a1b1 :: merged_cell_range where
  "a1b1 = \<lparr>min_row = 1, min_col = 1, max_row = 1, max_col = 2, start_cell = (1, 1), bound = True\<rparr>"

text \<open>A sheet with A1:B1 merged, and a placeholder left at D1 outside every merged range.\<close>

definition merged_sheet :: worksheet where
  "merged_sheet =
     \<lparr>cells = [((1, 2), MergedCell default_style), ((1, 4), MergedCell default_style)],
      merged_cells = [a1b1], row_height = (\<lambda>r. None), conditional_formatting = []\<rparr>"

text \<open>Two items for the static template: the second carries a \<^verbatim>\<open>total_value\<close> that is not its
  cost times its units.\<close>

definition beyanname_example :: payload where
  "beyanname_example =
     \<lparr>calculation = [(''reference'', JStr ''R1'')],
      items = [[(''cost'', JStr ''12.5''), (''unit_count'', JInt 3),
                (''total_value'', JFloat f_100), (''country_of_origin'', JStr ''vn'')],
               [(''cost'', JFloat f_7), (''unit_count'', JStr ''3''),
                (''total_value'', JFloat f_100)]],
      customMappings = None, timestamp = None\<rparr>"

definition override_example :: payload where
  "override_example =
     \<lparr>calculation = [], items = [],
      customMappings = Some (JObj [(''VN'', JStr ''999'')]), timestamp = None\<rparr>"

definition bad_cost_example :: payload where
  "bad_cost_example =
     \<lparr>calculation = [], items = [[(''cost'', JStr ''abc'')]],
      customMappings = None, timestamp = None\<rparr>"

definition a10b10 :: merged_cell_range where
  "a10b10 = \<lparr>min_row = 10, min_col = 1, max_row = 10, max_col = 2,
             start_cell = (10, 1), bound = True\<rparr>"

definition a11b11 :: merged_cell_range where
  "a11b11 = \<lparr>min_row = 11, min_col = 1, max_row = 11, max_col = 2,
             start_cell = (11, 1), bound = True\<rparr>"

text \<open>A template with A10:B10 merged on the template row and a footer cell in A11.\<close>

definition template_example :: worksheet where
  "template_example =
     \<lparr>cells = [((10, 1), Cell False (JStr ''x'') default_style),
               ((10, 2), MergedCell default_style),
               ((11, 1), Cell False (JStr ''footer'') (default_style\<lparr>font := 5\<rparr>))],
      merged_cells = [a10b10], row_height = (\<lambda>r. None), conditional_formatting = []\<rparr>"

text \<open>Scenario D of the specification.\<close>

definition scenario_d :: dict where
  "scenario_d =
     [(''style'', JStr ''S1''), (''vat_base'', JFloat f_100), (''kkdf'', JFloat f_5),
      (''customs_tax'', JInt 2), (''hs_code_data'', JObj [(''vat_percent'', JFloat f_0_1)])]"

definition plain_item :: dict where
  "plain_item = [(''style'', JStr ''S2''), (''customs_tax'', JInt 3)]"

definition two_items :: payload where
  "two_items = \<lparr>calculation = [], items = [scenario_d, plain_item],
                 customMappings = None, timestamp = None\<rparr>"

definition no_items :: payload where
  "no_items = \<lparr>calculation = [], items = [], customMappings = None, timestamp = None\<rparr>"

text \<open>Sheets that hold the number 0 in AC1, and in A10.\<close>

definition zero_ac1 :: worksheet where
  "zero_ac1 = \<lparr>cells = [((1, 29), Cell False (JInt 0) default_style)], merged_cells = [],
                row_height = (\<lambda>r. None), conditional_formatting = []\<rparr>"

definition zero_a10 :: worksheet where
  "zero_a10 = \<lparr>cells = [((10, 1), Cell False (JInt 0) default_style)], merged_cells = [],
                row_height = (\<lambda>r. None), conditional_formatting = []\<rparr>"

section \<open>Basic facts\<close>

lemma and_then_Inr [simp]: "and_then (Inr x) f = f x"
  by (simp add: and_then_def)

lemma and_then_Inl [simp]: "and_then (Inl e) f = Inl e"
  by (simp add: and_then_def)

lemma and_then_eq_Inr: "and_then m f = Inr y \<longleftrightarrow> (\<exists>x. m = Inr x \<and> f x = Inr y)"
  by (cases m) simp_all

lemma and_then_isl: "(\<And>x. isl (f x)) \<Longrightarrow> isl (and_then m f)"
  by (cases m) simp_all

lemma and_then_isl_left: "isl m \<Longrightarrow> isl (and_then m f)"
  by (cases m) simp_all

lemma cell_at_put_cell [simp]:
  "cell_at (put_cell ws rc c) rc' = (if rc' = rc then c else cell_at ws rc')"
  by (simp add: cell_at_def put_cell_def update_conv')

lemma put_cell_fields [simp]:
  "merged_cells (put_cell ws rc c) = merged_cells ws"
  "row_height (put_cell ws rc c) = row_height ws"
  "conditional_formatting (put_cell ws rc c) = conditional_formatting ws"
  by (simp_all add: put_cell_def)

lemma check_value_error:
  "check_value v = Inl e \<Longrightarrow> e = ValueError \<or> e = IllegalCharacterError"
  by (cases v) (auto split: if_splits)

lemma check_value_stored: "storable v \<Longrightarrow> check_value v = Inr (stored v)"
  by (cases "check_value v") (simp_all add: storable_def stored_def)

lemma check_value_Inr: "check_value v = Inr v' \<longleftrightarrow> storable v \<and> v' = stored v"
  by (cases "check_value v") (auto simp: storable_def stored_def)

lemma not_storable: "\<not> storable v \<Longrightarrow> \<exists>e. check_value v = Inl e"
  by (cases "check_value v") (simp_all add: storable_def)

lemma storable_simps [simp]:
  "storable JNull" "storable (JBool b)" "storable (JInt i)" "storable (JFloat f)"
  "\<not> storable (JArr xs)" "\<not> storable (JObj d)"
  by (simp_all add: storable_def)

lemma stored_simps [simp]:
  "stored JNull = JNull" "stored (JBool b) = JBool b" "stored (JInt i) = JInt i"
  "stored (JFloat f) = JFloat f"
  by (simp_all add: stored_def)

lemma printable_storable:
  assumes "length s \<le> 32767" "\<forall>c \<in> set s. 32 \<le> (of_char c :: nat)"
  shows "storable (JStr s)" and "stored (JStr s) = JStr s"
  using assms by (auto simp: storable_def stored_def illegal_character_def)

lemma assign_value_Inr:
  "assign_value ws rc v = Inr ws' \<longleftrightarrow>
     \<not> is_merged_cell (cell_at ws rc) \<and> storable v
     \<and> ws' = put_cell ws rc (Cell (formula_text (stored v)) (stored v) (style_of (cell_at ws rc)))"
  by (cases "cell_at ws rc"; cases "check_value v")
     (auto simp: assign_value_def storable_def stored_def)

lemma assign_value_Inl:
  "assign_value ws rc v = Inl e \<longleftrightarrow>
     (if is_merged_cell (cell_at ws rc) then e = AttributeError else check_value v = Inl e)"
  by (cases "cell_at ws rc"; cases "check_value v") (auto simp: assign_value_def)

lemma assign_value_merged:
  "is_merged_cell (cell_at ws rc) \<Longrightarrow> assign_value ws rc v = Inl AttributeError"
  by (cases "cell_at ws rc") (auto simp: assign_value_def)

lemma assign_value_cell:
  "\<not> is_merged_cell (cell_at ws rc) \<Longrightarrow> storable v \<Longrightarrow>
     assign_value ws rc v
       = Inr (put_cell ws rc (Cell (formula_text (stored v)) (stored v) (style_of (cell_at ws rc))))"
  using assign_value_Inr [of ws rc v] by simp

lemma assign_value_AttributeError:
  "assign_value ws rc v = Inl AttributeError \<longleftrightarrow> is_merged_cell (cell_at ws rc)"
  using check_value_error [of v AttributeError] by (auto simp: assign_value_Inl)

lemma assign_value_unstorable:
  "\<not> is_merged_cell (cell_at ws rc) \<Longrightarrow> check_value v = Inl e \<Longrightarrow> assign_value ws rc v = Inl e"
  using assign_value_Inl [of ws rc v e] by simp

lemma find_in_range:
  "find (\<lambda>mr. in_range mr rc) ms = Some mr \<Longrightarrow> mr \<in> set ms \<and> in_range mr rc"
  by (auto simp: find_Some_iff)

lemma find_in_range_None:
  "find (\<lambda>mr. in_range mr rc) ms = None \<longleftrightarrow> (\<forall>mr \<in> set ms. \<not> in_range mr rc)"
  by (auto simp: find_None_iff)

lemma column_letters [simp]:
  "column_index_from_string ''A'' = 1" "column_index_from_string ''B'' = 2"
  "column_index_from_string ''C'' = 3" "column_index_from_string ''D'' = 4"
  "column_index_from_string ''E'' = 5" "column_index_from_string ''F'' = 6"
  "column_index_from_string ''G'' = 7" "column_index_from_string ''H'' = 8"
  "column_index_from_string ''I'' = 9" "column_index_from_string ''J'' = 10"
  "column_index_from_string ''K'' = 11" "column_index_from_string ''L'' = 12"
  "column_index_from_string ''M'' = 13" "column_index_from_string ''N'' = 14"
  "column_index_from_string ''O'' = 15" "column_index_from_string ''P'' = 16"
  "column_index_from_string ''Q'' = 17" "column_index_from_string ''R'' = 18"
  "column_index_from_string ''S'' = 19" "column_index_from_string ''T'' = 20"
  "column_index_from_string ''U'' = 21" "column_index_from_string ''V'' = 22"
  "column_index_from_string ''W'' = 23" "column_index_from_string ''X'' = 24"
  "column_index_from_string ''Y'' = 25" "column_index_from_string ''Z'' = 26"
  "column_index_from_string ''AA'' = 27" "column_index_from_string ''AB'' = 28"
  "column_index_from_string ''AC'' = 29" "column_index_from_string ''AD'' = 30"
  "column_index_from_string ''AE'' = 31" "column_index_from_string ''BZ'' = 78"
  by (simp_all add: column_index_from_string_def)


section \<open>The example library\<close>

lemmas example_floats =
  f_2_def f_3_def f_5_def f_minus_5_def f_7_def f_9_5_def f_12_5_def f_21_def f_37_5_def
  f_95_def f_100_def f_0_1_def f_nan_def float_zero_def

lemma lib0_float_of_str [simp]: "float_of_str lib0 ''12.5'' = Some f_12_5"
  by (simp add: lib0_def)

lemma lib0_int_of_str [simp]: "int_of_str lib0 ''3'' = Some 3"
  by (simp add: lib0_def)

lemma lib0_float_of_int [simp]:
  "float_of_int lib0 0 = float_zero" "float_of_int lib0 2 = f_2" "float_of_int lib0 3 = f_3"
  "float_of_int lib0 100 = f_100"
  by (simp_all add: lib0_def table_get_def)

lemma lib0_float_add [simp]: "float_add lib0 float_zero f_5 = f_5"
  by (simp add: lib0_def table_get_def)

lemma lib0_float_sub [simp]:
  "float_sub lib0 f_100 f_5 = f_95" "float_sub lib0 float_zero f_5 = f_minus_5"
  "float_sub lib0 float_zero float_zero = float_zero"
  by (simp_all add: lib0_def table_get_def example_floats)

lemma lib0_float_mul [simp]:
  "float_mul lib0 f_95 f_0_1 = f_9_5" "float_mul lib0 f_12_5 f_3 = f_37_5"
  "float_mul lib0 f_7 f_3 = f_21" "float_mul lib0 float_zero float_zero = float_zero"
  by (simp_all add: lib0_def table_get_def example_floats)

lemma lib0_float_sum [simp]:
  "float_sum lib0 [f_2, f_3] = f_5" "float_sum lib0 [f_5, float_zero] = f_5"
  "float_sum lib0 [float_zero, float_zero] = float_zero"
  by (simp_all add: lib0_def table_get_def example_floats)

lemma lib0_set_order [simp]: "set_order lib0 ms = ms"
  by (simp add: lib0_def)

lemma small_ints_convert [simp]:
  "float_of_int_py L 0 = Inr (float_of_int L 0)" "float_of_int_py L 2 = Inr (float_of_int L 2)"
  "float_of_int_py L 3 = Inr (float_of_int L 3)" "float_of_int_py L 100 = Inr (float_of_int L 100)"
  by (simp_all add: float_of_int_py_def)

section \<open>Worksheet operations\<close>

lemma is_merged_cell_with_style [simp]: "is_merged_cell (with_style c s) = is_merged_cell c"
  by (cases c) simp_all

lemma value_of_with_style [simp]: "value_of (with_style c s) = value_of c"
  by (cases c) simp_all

lemma style_of_with_style [simp]: "style_of (with_style c s) = s"
  by (cases c) simp_all

lemma empty_cell_simps [simp]:
  "is_merged_cell empty_cell = False" "value_of empty_cell = JNull"
  "style_of empty_cell = default_style" "is_formula empty_cell = False"
  by (simp_all add: empty_cell_def)

subsection \<open>insert_rows\<close>

lemma map_of_shift_rows:
  "map_of (map (\<lambda>kv. (move_down idx (fst kv), snd kv)) al) (r, c)
     = (if r < idx then map_of al (r, c) else if r = idx then None else map_of al (r - 1, c))"
  by (induction al) (auto simp: move_down_def split: if_splits)

lemma cell_at_insert_rows:
  "cell_at (insert_rows ws idx) (r, c)
     = (if r < idx then cell_at ws (r, c) else if r = idx then empty_cell
        else cell_at ws (r - 1, c))"
  by (simp add: cell_at_def insert_rows_def map_of_shift_rows)

lemma insert_rows_fields [simp]:
  "row_height (insert_rows ws idx) = row_height ws"
  "conditional_formatting (insert_rows ws idx) = conditional_formatting ws"
  by (simp_all add: insert_rows_def)

text \<open>No start cell moves when all of them stand above the inserted row.\<close>

lemma insert_rows_merged:
  assumes "\<forall>mr \<in> set (merged_cells ws). fst (start_cell mr) < idx"
  shows "merged_cells (insert_rows ws idx) = merged_cells ws"
proof -
  have "map (\<lambda>mr. if bound mr then mr\<lparr>start_cell := move_down idx (start_cell mr)\<rparr> else mr)
          (merged_cells ws) = map (\<lambda>mr. mr) (merged_cells ws)"
    using assms by (intro map_cong refl) (auto simp: move_down_def)
  then show ?thesis by (simp add: insert_rows_def)
qed

subsection \<open>Folds of put_cell\<close>

lemma foldl_put_cell_fields [simp]:
  "merged_cells (foldl (\<lambda>w x. put_cell w (k x) (f w x)) ws xs) = merged_cells ws"
  "row_height (foldl (\<lambda>w x. put_cell w (k x) (f w x)) ws xs) = row_height ws"
  "conditional_formatting (foldl (\<lambda>w x. put_cell w (k x) (f w x)) ws xs)
     = conditional_formatting ws"
  by (induction xs arbitrary: ws) simp_all

lemma cell_at_foldl_put_const:
  "cell_at (foldl (\<lambda>w rc. put_cell w rc c0) ws xs) rc
     = (if rc \<in> set xs then c0 else cell_at ws rc)"
  by (induction xs arbitrary: ws) auto

subsection \<open>merge_cells\<close>

lemma mset_reorder [simp]: "mset (reorder L ms) = mset ms"
  by (simp add: reorder_def)

lemma set_reorder [simp]: "set (reorder L ms) = set ms"
  using mset_reorder [of L ms] by (metis set_mset_mset)

text \<open>The ranges after \<^verbatim>\<open>merge_cells\<close>, where no start cell stands at a position that receives a
  placeholder.\<close>

lemma mset_merge_cells:
  assumes "\<forall>q \<in> set (merged_cells ws). start_cell q \<notin> set (tl (range_cells cr))"
    and "start_cell (merged_range_of cr) \<notin> set (tl (range_cells cr))"
  shows "mset (merged_cells (merge_cells L ws cr))
     = (if \<exists>q \<in> set (merged_cells ws). range_subset cr q then mset (merged_cells ws)
        else add_mset (merged_range_of cr) (mset (merged_cells ws)))"
proof -
  define ms where "ms = (if \<exists>q \<in> set (merged_cells ws). range_subset cr q then merged_cells ws
                          else reorder L (merged_cells ws @ [merged_range_of cr]))"
  have "\<forall>q \<in> set ms. start_cell q \<notin> set (tl (range_cells cr))"
    using assms by (auto simp: ms_def)
  then have "map (\<lambda>q. if start_cell q \<in> set (tl (range_cells cr)) then q\<lparr>bound := False\<rparr> else q) ms
               = map (\<lambda>q. q) ms"
    by (intro map_cong refl) auto
  then have m: "map (\<lambda>q. if start_cell q \<in> set (tl (range_cells cr)) then q\<lparr>bound := False\<rparr>
                          else q) ms = ms"
    by simp
  have "merged_cells (merge_cells L ws cr)
          = map (\<lambda>q. if start_cell q \<in> set (tl (range_cells cr)) then q\<lparr>bound := False\<rparr> else q) ms"
    unfolding merge_cells_def Let_def ms_def
    by (cases "\<exists>q \<in> set (merged_cells ws). range_subset cr q") simp_all
  with m have "merged_cells (merge_cells L ws cr) = ms" by simp
  then show ?thesis by (simp add: ms_def)
qed

lemma merge_cells_fields [simp]:
  "row_height (merge_cells L ws mr) = row_height ws"
  "conditional_formatting (merge_cells L ws mr) = conditional_formatting ws"
  by (simp_all add: merge_cells_def Let_def)

lemma cell_at_merged_cells_update [simp]:
  "cell_at (ws\<lparr>merged_cells := ms\<rparr>) rc = cell_at ws rc"
  by (simp add: cell_at_def)

lemma cell_at_row_height_update [simp]:
  "cell_at (ws\<lparr>row_height := h\<rparr>) rc = cell_at ws rc"
  by (simp add: cell_at_def)

lemma cell_at_conditional_formatting_update [simp]:
  "cell_at (ws\<lparr>conditional_formatting := cf\<rparr>) rc = cell_at ws rc"
  by (simp add: cell_at_def)

lemma cell_at_merge_cells:
  "cell_at (merge_cells L ws mr) rc
     = (if rc \<in> set (tl (range_cells mr)) then MergedCell default_style else cell_at ws rc)"
  by (simp add: merge_cells_def Let_def cell_at_foldl_put_const)

lemma tl_range_cells_clone:
  "set (tl (range_cells (clone_range mr r)))
     = {rc. fst rc = r \<and> min_col mr < snd rc \<and> snd rc \<le> max_col mr}"
proof -
  have "range_cells (clone_range mr r) = map (\<lambda>c. (r, c)) [min_col mr..<Suc (max_col mr)]"
    by (simp add: range_cells_def clone_range_def)
  then have "tl (range_cells (clone_range mr r))
               = map (\<lambda>c. (r, c)) [Suc (min_col mr)..<Suc (max_col mr)]"
    by (simp add: map_tl [symmetric] del: upt_Suc)
  then show ?thesis by auto
qed

subsection \<open>copy_style, fill_row\<close>

lemma copy_style_fields [simp]:
  "merged_cells (copy_style ws a b) = merged_cells ws"
  "row_height (copy_style ws a b) = row_height ws"
  "conditional_formatting (copy_style ws a b) = conditional_formatting ws"
  by (simp_all add: copy_style_def Let_def)

lemma cell_at_copy_style:
  "cell_at (copy_style ws a b) rc
     = (if rc = b \<and> has_style (cell_at ws a)
        then with_style (cell_at ws b) (style_of (cell_at ws a)) else cell_at ws rc)"
  by (simp add: copy_style_def Let_def)

lemma copy_style_kind [simp]:
  "is_merged_cell (cell_at (copy_style ws a b) rc) = is_merged_cell (cell_at ws rc)"
  "value_of (cell_at (copy_style ws a b) rc) = value_of (cell_at ws rc)"
  by (simp_all add: cell_at_copy_style)

lemma copy_style_other: "rc \<noteq> b \<Longrightarrow> cell_at (copy_style ws a b) rc = cell_at ws rc"
  by (simp add: cell_at_copy_style)

lemma fill_row_fields [simp]:
  "merged_cells (fill_row ws r f) = merged_cells ws"
  "row_height (fill_row ws r f) = row_height ws"
  "conditional_formatting (fill_row ws r f) = conditional_formatting ws"
  by (simp_all add: fill_row_def)

lemma fill_row_fold_kind:
  "is_merged_cell (cell_at (foldl (\<lambda>w col. put_cell w (r, col)
       (with_fill (cell_at w (r, col)) f)) ws cols) rc) = is_merged_cell (cell_at ws rc)
   \<and> value_of (cell_at (foldl (\<lambda>w col. put_cell w (r, col)
       (with_fill (cell_at w (r, col)) f)) ws cols) rc) = value_of (cell_at ws rc)
   \<and> (fst rc \<noteq> r \<longrightarrow> cell_at (foldl (\<lambda>w col. put_cell w (r, col)
       (with_fill (cell_at w (r, col)) f)) ws cols) rc = cell_at ws rc)"
  by (induction cols arbitrary: ws) (auto simp: with_fill_def)

lemma fill_row_kind [simp]:
  "is_merged_cell (cell_at (fill_row ws r f) rc) = is_merged_cell (cell_at ws rc)"
  "value_of (cell_at (fill_row ws r f) rc) = value_of (cell_at ws rc)"
  using fill_row_fold_kind [of r f ws "[1..<31]" rc] by (simp_all add: fill_row_def)

lemma fill_row_other: "fst rc \<noteq> r \<Longrightarrow> cell_at (fill_row ws r f) rc = cell_at ws rc"
  using fill_row_fold_kind [of r f ws "[1..<31]" rc] by (simp add: fill_row_def)

subsection \<open>bake_formulas, scrub_rows\<close>

lemma bake_cell_cases:
  "bake_cell c v = Inr c' \<Longrightarrow>
     is_merged_cell c' = is_merged_cell c \<and> style_of c' = style_of c
     \<and> (\<not> is_formula c \<longrightarrow> c' = c)"
  by (cases c; cases "check_value v") (auto simp: bake_cell_def split: if_splits)

lemma baked_simps [simp]:
  "is_merged_cell (baked c v) = is_merged_cell c" "style_of (baked c v) = style_of c"
  "\<not> is_formula c \<Longrightarrow> baked c v = c"
  by (cases "bake_cell c v"; simp add: baked_def; frule bake_cell_cases; simp)+

lemma bake_cells_Inr:
  "bake_cells d al = Inr al' \<Longrightarrow>
     map_of al' k = map_option (\<lambda>c. baked c (value_of (cell_at d k))) (map_of al k)"
proof (induction al arbitrary: al')
  case Nil
  then show ?case by simp
next
  case (Cons kv al)
  from Cons.prems obtain c rest where
    c: "bake_cell (snd kv) (value_of (cell_at d (fst kv))) = Inr c"
    and rest: "bake_cells d al = Inr rest"
    and al': "al' = (fst kv, c) # rest"
    by (auto simp: and_then_eq_Inr)
  from c have "baked (snd kv) (value_of (cell_at d (fst kv))) = c"
    by (simp add: baked_def)
  with Cons.IH [OF rest] show ?case
    by (cases kv) (auto simp: al')
qed

lemma bake_formulas_Inr:
  assumes "bake_formulas ws d = Inr w"
  shows "merged_cells w = merged_cells ws" "row_height w = row_height ws"
    "conditional_formatting w = conditional_formatting ws"
    "cell_at w rc = baked (cell_at ws rc) (value_of (cell_at d rc))"
proof -
  from assms obtain cs where cs: "bake_cells d (cells ws) = Inr cs" and w: "w = ws\<lparr>cells := cs\<rparr>"
    by (auto simp: bake_formulas_def and_then_eq_Inr)
  from w show "merged_cells w = merged_cells ws" "row_height w = row_height ws"
    "conditional_formatting w = conditional_formatting ws"
    by simp_all
  have "map_of (cells w) rc
          = map_option (\<lambda>c. baked c (value_of (cell_at d rc))) (map_of (cells ws) rc)"
    using bake_cells_Inr [OF cs] by (simp add: w)
  then show "cell_at w rc = baked (cell_at ws rc) (value_of (cell_at d rc))"
    by (cases "map_of (cells ws) rc") (simp_all add: cell_at_def [of w] cell_at_def [of ws])
qed

lemma scrub_cell_empty [simp]: "scrub_cell empty_cell = empty_cell"
  by (simp add: scrub_cell_def empty_cell_def default_style_def)

lemma scrub_rows_fields [simp]:
  "merged_cells (scrub_rows ws a b c d) = merged_cells ws"
  "row_height (scrub_rows ws a b c d) = row_height ws"
  "conditional_formatting (scrub_rows ws a b c d) = conditional_formatting ws"
  by (simp_all add: scrub_rows_def)

lemma map_of_scrub:
  "map_of (map (\<lambda>kv. if a \<le> fst (fst kv) \<and> fst (fst kv) \<le> b
                               \<and> c \<le> snd (fst kv) \<and> snd (fst kv) \<le> d
                            then (fst kv, scrub_cell (snd kv)) else kv) al) k
     = (if a \<le> fst k \<and> fst k \<le> b \<and> c \<le> snd k \<and> snd k \<le> d
        then map_option scrub_cell (map_of al k) else map_of al k)"
  by (induction al) auto

lemma cell_at_scrub_rows:
  "cell_at (scrub_rows ws a b c d) rc
     = (if a \<le> fst rc \<and> fst rc \<le> b \<and> c \<le> snd rc \<and> snd rc \<le> d
        then scrub_cell (cell_at ws rc) else cell_at ws rc)"
proof -
  have "map_of (cells (scrub_rows ws a b c d)) rc
          = (if a \<le> fst rc \<and> fst rc \<le> b \<and> c \<le> snd rc \<and> snd rc \<le> d
             then map_option scrub_cell (map_of (cells ws) rc) else map_of (cells ws) rc)"
    by (simp add: scrub_rows_def map_of_scrub)
  then show ?thesis
    by (cases "map_of (cells ws) rc")
       (simp_all add: cell_at_def [of "scrub_rows ws a b c d"] cell_at_def [of ws])
qed

lemma map_of_le_max_row:
  "map_of (al :: (coord \<times> 'b) list) rc = Some x
     \<Longrightarrow> fst rc \<le> foldr max (map (\<lambda>kv. fst (fst kv)) al) 1"
  by (induction al) (auto split: if_splits simp: le_max_iff_disj)

lemma beyond_max_row: "ws_max_row ws < fst rc \<Longrightarrow> cell_at ws rc = empty_cell"
  using map_of_le_max_row [of "cells ws" rc]
  by (cases "map_of (cells ws) rc") (auto simp: cell_at_def ws_max_row_def)

lemma cell_at_scrub_rows_max:
  "cell_at (scrub_rows ws a (min (ws_max_row ws) 6000) c d) rc
     = (if a \<le> fst rc \<and> fst rc \<le> 6000 \<and> c \<le> snd rc \<and> snd rc \<le> d
        then scrub_cell (cell_at ws rc) else cell_at ws rc)"
  using beyond_max_row [of ws rc] by (auto simp: cell_at_scrub_rows)

section \<open>Writes through merged ranges\<close>

lemma same_shape_refl [simp]: "same_shape ws ws"
  by (simp add: same_shape_def)

lemma same_shape_trans: "same_shape a b \<Longrightarrow> same_shape b c \<Longrightarrow> same_shape a c"
  by (simp add: same_shape_def)

lemma same_shape_kind:
  "same_shape ws ws' \<Longrightarrow> is_merged_cell (cell_at ws' rc) = is_merged_cell (cell_at ws rc)"
  by (cases rc) (simp add: same_shape_def)

lemma same_shape_merged: "same_shape ws ws' \<Longrightarrow> merged_cells ws' = merged_cells ws"
  by (simp add: same_shape_def)

lemma same_shape_formatting:
  "same_shape ws ws' \<Longrightarrow> conditional_formatting ws' = conditional_formatting ws"
  by (simp add: same_shape_def)

lemma same_shape_covered: "same_shape ws ws' \<Longrightarrow> covered ws' rc = covered ws rc"
  by (simp add: same_shape_merged covered_def)

lemma same_shape_anchors_ok: "same_shape ws ws' \<Longrightarrow> anchors_ok ws' = anchors_ok ws"
  by (simp add: same_shape_merged same_shape_kind anchors_ok_def)

lemma same_shape_top_left: "same_shape ws ws' \<Longrightarrow> top_left_starts ws' = top_left_starts ws"
  by (simp add: same_shape_merged top_left_starts_def)

lemma find_in_range_anchor:
  assumes "find (\<lambda>mr. in_range mr rc) (merged_cells ws) = Some mr" "top_left_starts ws"
  shows "mr \<in> set (merged_cells ws)" "in_range mr rc" "in_range mr (start_cell mr)"
    "start_cell mr = (min_row mr, min_col mr)"
proof -
  from find_in_range [OF assms(1)] show m: "mr \<in> set (merged_cells ws)" and i: "in_range mr rc"
    by simp_all
  from m assms(2) show s: "start_cell mr = (min_row mr, min_col mr)"
    by (simp add: top_left_starts_def)
  from i show "in_range mr (start_cell mr)"
    unfolding s by (auto simp: in_range_def)
qed

subsection \<open>set_cell_value\<close>

lemma set_cell_value_same_shape:
  "set_cell_value ws ref v = Inr ws' \<Longrightarrow> same_shape ws ws'"
  by (auto simp: set_cell_value_def same_shape_def assign_value_Inr
      split: option.splits sum.splits error.splits)

lemma set_cell_value_frame:
  assumes "set_cell_value ws ref v = Inr ws'" "\<not> covered ws rc" "rc \<noteq> coordinate_to_tuple ref"
    and tl: "top_left_starts ws"
  shows "cell_at ws' rc = cell_at ws rc"
proof (cases "find (\<lambda>mr. in_range mr (coordinate_to_tuple ref)) (merged_cells ws)")
  case None
  with assms(1,3) show ?thesis
    by (auto simp: set_cell_value_def assign_value_Inr split: sum.splits error.splits)
next
  case (Some mr)
  from find_in_range_anchor [OF Some tl] assms(2) have "rc \<noteq> start_cell mr"
    by (auto simp: covered_def)
  with Some assms(1) show ?thesis
    by (auto simp: set_cell_value_def assign_value_Inr)
qed

lemma set_cell_value_direct:
  assumes "set_cell_value ws ref v = Inr ws'" "\<not> covered ws (coordinate_to_tuple ref)"
    "\<not> is_merged_cell (cell_at ws (coordinate_to_tuple ref))"
  shows "value_of (cell_at ws' (coordinate_to_tuple ref)) = stored v"
proof -
  from assms(2) have "find (\<lambda>mr. in_range mr (coordinate_to_tuple ref)) (merged_cells ws) = None"
    by (auto simp: covered_def find_None_iff)
  with assms(1,3) show ?thesis
    by (auto simp: set_cell_value_def assign_value_Inr assign_value_AttributeError
        split: sum.splits error.splits)
qed

lemma same_shape_row_closed: "same_shape ws ws' \<Longrightarrow> row_closed ws' r = row_closed ws r"
  by (simp add: same_shape_merged row_closed_def)

lemma set_cell_value_row_frame:
  assumes "set_cell_value ws ref v = Inr ws'" "row_closed ws (snd ref)" "fst rc \<noteq> snd ref"
    and tl: "top_left_starts ws"
  shows "cell_at ws' rc = cell_at ws rc"
proof (cases "find (\<lambda>mr. in_range mr (coordinate_to_tuple ref)) (merged_cells ws)")
  case None
  with assms(1,3) show ?thesis
    by (auto simp: set_cell_value_def assign_value_Inr coordinate_to_tuple_def
        split: sum.splits error.splits)
next
  case (Some mr)
  note a = find_in_range_anchor [OF Some tl]
  from a(1,2) assms(2) have "min_row mr = snd ref"
    by (auto simp: row_closed_def in_range_def coordinate_to_tuple_def)
  with assms(3) a(4) have "rc \<noteq> start_cell mr"
    by auto
  with Some assms(1) show ?thesis
    by (auto simp: set_cell_value_def assign_value_Inr)
qed

lemma set_cell_value_succeeds:
  assumes "anchors_ok ws" "storable v"
  shows "\<exists>ws'. set_cell_value ws ref v = Inr ws'"
proof (cases "find (\<lambda>mr. in_range mr (coordinate_to_tuple ref)) (merged_cells ws)")
  case None
  with assms(2) show ?thesis
    by (cases "is_merged_cell (cell_at ws (coordinate_to_tuple ref))")
       (simp_all add: set_cell_value_def assign_value_merged assign_value_cell)
next
  case (Some mr)
  from find_in_range [OF Some] assms(1) have "\<not> is_merged_cell (cell_at ws (start_cell mr))"
    by (auto simp: anchors_ok_def)
  with Some assms(2) show ?thesis
    by (simp add: set_cell_value_def assign_value_cell)
qed

subsection \<open>set_cell_values\<close>

lemma set_cell_values_append:
  "set_cell_values ws (xs @ ys) = and_then (set_cell_values ws xs) (\<lambda>w. set_cell_values w ys)"
proof (induction xs arbitrary: ws)
  case Nil
  then show ?case by simp
next
  case (Cons w xs)
  then show ?case
    by (cases "snd w"; cases "set_cell_value ws (fst w) (projr (snd w))") simp_all
qed

lemma set_cell_values_Cons_Inr:
  "set_cell_values ws (w # rest) = Inr ws' \<longleftrightarrow>
     (\<exists>v w1. snd w = Inr v \<and> set_cell_value ws (fst w) v = Inr w1
        \<and> set_cell_values w1 rest = Inr ws')"
  by (cases "snd w") (auto simp: and_then_eq_Inr)

declare set_cell_values.simps(2) [simp del]

lemma set_cell_values_same_shape:
  "set_cell_values ws xs = Inr ws' \<Longrightarrow> same_shape ws ws'"
proof (induction xs arbitrary: ws)
  case Nil
  then show ?case by simp
next
  case (Cons w xs)
  then show ?case
    by (auto simp: set_cell_values_Cons_Inr
        intro: same_shape_trans set_cell_value_same_shape)
qed

lemma set_cell_values_frame:
  "set_cell_values ws xs = Inr ws' \<Longrightarrow> \<not> covered ws rc
     \<Longrightarrow> rc \<notin> coordinate_to_tuple ` fst ` set xs \<Longrightarrow> top_left_starts ws
     \<Longrightarrow> cell_at ws' rc = cell_at ws rc"
proof (induction xs arbitrary: ws)
  case Nil
  then show ?case by simp
next
  case (Cons w xs)
  from Cons.prems(1) obtain v w1 where
    w1: "set_cell_value ws (fst w) v = Inr w1" and rest: "set_cell_values w1 xs = Inr ws'"
    by (auto simp: set_cell_values_Cons_Inr)
  from Cons.prems(2,4) set_cell_value_same_shape [OF w1]
  have "\<not> covered w1 rc" and "top_left_starts w1"
    by (simp_all add: same_shape_covered same_shape_top_left)
  from Cons.IH [OF rest this(1) _ this(2)] Cons.prems(3)
  have "cell_at ws' rc = cell_at w1 rc" by simp
  also from Cons.prems(2,3,4) have "\<dots> = cell_at ws rc"
    by (intro set_cell_value_frame [OF w1]) auto
  finally show ?case .
qed

lemma set_cell_values_row_frame:
  "set_cell_values ws xs = Inr ws' \<Longrightarrow> row_closed ws r \<Longrightarrow> \<forall>w \<in> set xs. snd (fst w) = r
     \<Longrightarrow> fst rc \<noteq> r \<Longrightarrow> top_left_starts ws \<Longrightarrow> cell_at ws' rc = cell_at ws rc"
proof (induction xs arbitrary: ws)
  case Nil
  then show ?case by simp
next
  case (Cons w xs)
  from Cons.prems(1) obtain v w1 where
    w1: "set_cell_value ws (fst w) v = Inr w1" and rest: "set_cell_values w1 xs = Inr ws'"
    by (auto simp: set_cell_values_Cons_Inr)
  from Cons.prems(2,5) set_cell_value_same_shape [OF w1]
  have "row_closed w1 r" and "top_left_starts w1"
    by (simp_all add: same_shape_row_closed same_shape_top_left)
  from Cons.IH [OF rest this(1) _ _ this(2)] Cons.prems(3,4)
  have "cell_at ws' rc = cell_at w1 rc" by simp
  also from Cons.prems(2,3,4,5) have "\<dots> = cell_at ws rc"
    by (intro set_cell_value_row_frame [OF w1]) auto
  finally show ?case .
qed

lemma set_cell_values_value:
  "set_cell_values ws xs = Inr ws' \<Longrightarrow> \<not> covered ws rc \<Longrightarrow> \<not> is_merged_cell (cell_at ws rc)
     \<Longrightarrow> distinct (map (\<lambda>w. coordinate_to_tuple (fst w)) xs)
     \<Longrightarrow> (ref, Inr v) \<in> set xs \<Longrightarrow> coordinate_to_tuple ref = rc \<Longrightarrow> top_left_starts ws
     \<Longrightarrow> value_of (cell_at ws' rc) = stored v"
proof (induction xs arbitrary: ws)
  case Nil
  then show ?case by simp
next
  case (Cons w xs)
  from Cons.prems(1) obtain u w1 where
    u: "snd w = Inr u"
    and w1: "set_cell_value ws (fst w) u = Inr w1" and rest: "set_cell_values w1 xs = Inr ws'"
    by (auto simp: set_cell_values_Cons_Inr)
  from set_cell_value_same_shape [OF w1] Cons.prems(2,3,7)
  have c1: "\<not> covered w1 rc" and m1: "\<not> is_merged_cell (cell_at w1 rc)"
    and t1: "top_left_starts w1"
    by (simp_all add: same_shape_covered same_shape_kind same_shape_top_left)
  show ?case
  proof (cases "(ref, Inr v) \<in> set xs")
    case True
    from Cons.IH [OF rest c1 m1 _ True Cons.prems(6) t1] Cons.prems(4) show ?thesis by simp
  next
    case False
    with Cons.prems(5) have w: "w = (ref, Inr v)" by simp
    with u have uv: "u = v" by simp
    from Cons.prems(4,6) w have "rc \<notin> coordinate_to_tuple ` fst ` set xs"
      by (auto simp: image_iff)
    from set_cell_values_frame [OF rest c1 this t1]
    have "cell_at ws' rc = cell_at w1 rc" .
    moreover from set_cell_value_direct [OF w1] Cons.prems(2,3,6) w uv
    have "value_of (cell_at w1 rc) = stored v" by simp
    ultimately show ?thesis by simp
  qed
qed

lemma set_cell_values_succeeds:
  "anchors_ok ws \<Longrightarrow> \<forall>w \<in> set xs. writable w \<Longrightarrow> \<exists>ws'. set_cell_values ws xs = Inr ws'"
proof (induction xs arbitrary: ws)
  case Nil
  then show ?case by simp
next
  case (Cons w xs)
  from Cons.prems(2) obtain v where v: "snd w = Inr v" and sv: "storable v"
    by (cases "snd w") (auto simp: writable_def)
  from set_cell_value_succeeds [OF Cons.prems(1) sv] obtain w1 where
    w1: "set_cell_value ws (fst w) v = Inr w1" by blast
  from set_cell_value_same_shape [OF w1] Cons.prems(1) have "anchors_ok w1"
    by (simp add: same_shape_anchors_ok)
  from Cons.IH [OF this] Cons.prems(2) obtain ws' where "set_cell_values w1 xs = Inr ws'"
    by auto
  with v w1 show ?case by (simp add: set_cell_values_Cons_Inr)
qed

section \<open>The merge-aware cell writer\<close>

lemma set_cell_value_merged_branch:
  assumes "find (\<lambda>mr. in_range mr (coordinate_to_tuple cell_ref)) (merged_cells ws) = Some mr"
  shows "set_cell_value ws cell_ref v
     = (if is_merged_cell (cell_at ws (start_cell mr)) then Inl AttributeError
        else case check_value v of
               Inl e \<Rightarrow> Inl e
             | Inr v' \<Rightarrow> Inr (put_cell ws (start_cell mr)
                               (Cell (formula_text v') v' (style_of (cell_at ws (start_cell mr))))))"
proof (cases "is_merged_cell (cell_at ws (start_cell mr))")
  case True
  with assms show ?thesis by (simp add: set_cell_value_def assign_value_merged)
next
  case False
  show ?thesis
  proof (cases "check_value v")
    case (Inl e)
    with False assms show ?thesis by (simp add: set_cell_value_def assign_value_unstorable)
  next
    case (Inr v')
    then have "storable v" "stored v = v'" by (simp_all add: check_value_Inr)
    with False assms Inr show ?thesis by (simp add: set_cell_value_def assign_value_cell)
  qed
qed

lemma set_cell_value_direct_branch:
  assumes "find (\<lambda>mr. in_range mr (coordinate_to_tuple cell_ref)) (merged_cells ws) = None"
  shows "set_cell_value ws cell_ref v
     = (if is_merged_cell (cell_at ws (coordinate_to_tuple cell_ref)) then Inr ws
        else case check_value v of
               Inl e \<Rightarrow> Inl e
             | Inr v' \<Rightarrow> Inr (put_cell ws (coordinate_to_tuple cell_ref)
                               (Cell (formula_text v') v'
                                  (style_of (cell_at ws (coordinate_to_tuple cell_ref))))))"
proof (cases "is_merged_cell (cell_at ws (coordinate_to_tuple cell_ref))")
  case True
  with assms show ?thesis by (simp add: set_cell_value_def assign_value_merged)
next
  case False
  show ?thesis
  proof (cases "check_value v")
    case (Inl e)
    from check_value_error [OF Inl] False assms Inl show ?thesis
      by (auto simp: set_cell_value_def assign_value_unstorable)
  next
    case (Inr v')
    then have "storable v" "stored v = v'" by (simp_all add: check_value_Inr)
    with False assms Inr show ?thesis by (simp add: set_cell_value_def assign_value_cell)
  qed
qed




section \<open>The country-code mapping\<close>

lemma default_codes_nonempty:
  "map_of DEFAULT_COUNTRY_CODE_MAPPING k = Some v \<Longrightarrow> k \<noteq> []"
  by (auto simp: DEFAULT_COUNTRY_CODE_MAPPING_def split: if_splits)

lemma map_of_dict_merge:
  "map_of (dict_merge a b) k = (case map_of b k of Some v \<Rightarrow> Some v | None \<Rightarrow> map_of a k)"
  by (simp add: dict_merge_def map_add_def split: option.splits)

lemma country_code_3digit_str:
  "country_code_3digit L (dict_merge a b) (JStr s)
     = Inr (if s = [] then JStr []
            else case map_of b (str_upper L s) of
                   Some v \<Rightarrow> v
                 | None \<Rightarrow> (case map_of a (str_upper L s) of Some v \<Rightarrow> v | None \<Rightarrow> JStr []))"
  by (simp add: country_code_3digit_def dict_get_def map_of_dict_merge split: option.splits)

text \<open>
  C8 (as amended).  The effective mapping is the default table merged with the caller's
  overrides, an override winning on a key of both.  The lookup is made with the upper-cased
  code: a code whose upper-cased form is in neither map gives the empty string, as does the
  empty code; under an empty override map a code of the default table that upper-casing leaves
  as it is gives the table's value (\<^verbatim>\<open>VN\<close> gives \<^verbatim>\<open>690\<close>), and \<^verbatim>\<open>ZZ\<close> gives the empty string.  The
  call leaves the default table as it found it.
\<close>

theorem country_code_lookup:
  assumes "customMappings data = Some (JObj custom) \<or> customMappings data = None \<and> custom = []"
  shows "country_code_mapping DEFAULT_COUNTRY_CODE_MAPPING data
           = Inr (dict_merge DEFAULT_COUNTRY_CODE_MAPPING custom)
    \<and> (\<forall>k. map_of (dict_merge DEFAULT_COUNTRY_CODE_MAPPING custom) k
             = (case map_of custom k of Some v \<Rightarrow> Some v
                | None \<Rightarrow> map_of DEFAULT_COUNTRY_CODE_MAPPING k))
    \<and> (\<forall>s. country_code_3digit L (dict_merge DEFAULT_COUNTRY_CODE_MAPPING custom) (JStr s)
            = Inr (if s = [] then JStr []
                   else case map_of custom (str_upper L s) of
                          Some v \<Rightarrow> v
                        | None \<Rightarrow> (case map_of DEFAULT_COUNTRY_CODE_MAPPING (str_upper L s) of
                                     Some v \<Rightarrow> v | None \<Rightarrow> JStr [])))
    \<and> (\<forall>s. map_of custom (str_upper L s) = None
            \<and> map_of DEFAULT_COUNTRY_CODE_MAPPING (str_upper L s) = None \<longrightarrow>
          country_code_3digit L (dict_merge DEFAULT_COUNTRY_CODE_MAPPING custom) (JStr s)
            = Inr (JStr []))
    \<and> (custom = [] \<longrightarrow>
          (\<forall>k v. map_of DEFAULT_COUNTRY_CODE_MAPPING k = Some v \<and> str_upper L k = k \<longrightarrow>
             country_code_3digit L (dict_merge DEFAULT_COUNTRY_CODE_MAPPING custom) (JStr k)
               = Inr v)
          \<and> (str_upper L ''VN'' = ''VN'' \<longrightarrow>
               country_code_3digit L (dict_merge DEFAULT_COUNTRY_CODE_MAPPING custom) (JStr ''VN'')
                 = Inr (JStr ''690''))
          \<and> (str_upper L ''ZZ'' = ''ZZ'' \<longrightarrow>
               country_code_3digit L (dict_merge DEFAULT_COUNTRY_CODE_MAPPING custom) (JStr ''ZZ'')
                 = Inr (JStr [])))
    \<and> fst (export_beyanname_excel L DEFAULT_COUNTRY_CODE_MAPPING template data)
        = DEFAULT_COUNTRY_CODE_MAPPING"
proof -
  let ?D = DEFAULT_COUNTRY_CODE_MAPPING
  have 1: "country_code_mapping ?D data = Inr (dict_merge ?D custom)"
    using assms by (auto simp: country_code_mapping_def)
  note 2 = map_of_dict_merge [of ?D custom]
  note 3 = country_code_3digit_str [of L ?D custom]
  have 4: "country_code_3digit L (dict_merge ?D custom) (JStr s) = Inr (JStr [])"
    if "map_of custom (str_upper L s) = None \<and> map_of ?D (str_upper L s) = None" for s
    using that by (simp add: 3)
  have 5: "country_code_3digit L (dict_merge ?D custom) (JStr k) = Inr v"
    if "custom = []" "map_of ?D k = Some v \<and> str_upper L k = k" for k v
    using default_codes_nonempty [of k v] that by (simp add: country_code_3digit_str)
  have vn: "map_of ?D ''VN'' = Some (JStr ''690'')"
    and zz: "map_of ?D ''ZZ'' = None"
    by (simp_all add: DEFAULT_COUNTRY_CODE_MAPPING_def)
  have 6: "country_code_3digit L (dict_merge ?D custom) (JStr ''VN'') = Inr (JStr ''690'')"
    if "custom = []" "str_upper L ''VN'' = ''VN''"
    using that vn by (simp add: country_code_3digit_str)
  have 7: "country_code_3digit L (dict_merge ?D custom) (JStr ''ZZ'') = Inr (JStr [])"
    if "custom = []" "str_upper L ''ZZ'' = ''ZZ''"
    using that zz by (simp add: country_code_3digit_str)
  have 8: "fst (export_beyanname_excel L ?D template data) = ?D"
    by (simp add: export_beyanname_excel_def)
  from 1 2 3 4 5 6 7 8 show ?thesis by blast
qed

lemma lib0_upper:
  "str_upper lib0 ''VN'' = ''VN''" "str_upper lib0 ''ZZ'' = ''ZZ''"
  by (simp_all add: lib0_def upper_char_def)

theorem country_code_lookup_witness:
  "customMappings override_example = Some (JObj [(''VN'', JStr ''999'')])
   \<and> country_code_mapping DEFAULT_COUNTRY_CODE_MAPPING override_example
       = Inr (dict_merge DEFAULT_COUNTRY_CODE_MAPPING [(''VN'', JStr ''999'')])
   \<and> country_code_3digit lib0 (dict_merge DEFAULT_COUNTRY_CODE_MAPPING [(''VN'', JStr ''999'')])
        (JStr ''VN'') = Inr (JStr ''999'')
   \<and> fst (export_beyanname_excel lib0 DEFAULT_COUNTRY_CODE_MAPPING blank_sheet override_example)
       = DEFAULT_COUNTRY_CODE_MAPPING
   \<and> customMappings no_items = None
   \<and> country_code_3digit lib0 (dict_merge DEFAULT_COUNTRY_CODE_MAPPING []) (JStr ''VN'')
       = Inr (JStr ''690'')
   \<and> country_code_3digit lib0 (dict_merge DEFAULT_COUNTRY_CODE_MAPPING []) (JStr ''ZZ'')
       = Inr (JStr [])"
proof -
  have c: "customMappings override_example = Some (JObj [(''VN'', JStr ''999'')])"
    by (simp add: override_example_def)
  have n: "customMappings no_items = None"
    by (simp add: no_items_def)
  note t1 = country_code_lookup [of override_example "[(''VN'', JStr ''999'')]" lib0 blank_sheet]
  from t1 c have 1: "country_code_mapping DEFAULT_COUNTRY_CODE_MAPPING override_example
       = Inr (dict_merge DEFAULT_COUNTRY_CODE_MAPPING [(''VN'', JStr ''999'')])"
    by blast
  from t1 c
  have "country_code_3digit lib0 (dict_merge DEFAULT_COUNTRY_CODE_MAPPING [(''VN'', JStr ''999'')])
          (JStr ''VN'')
        = Inr (if ''VN'' = [] then JStr []
               else case map_of [(''VN'', JStr ''999'')] (str_upper lib0 ''VN'') of
                      Some v \<Rightarrow> v
                    | None \<Rightarrow> (case map_of DEFAULT_COUNTRY_CODE_MAPPING (str_upper lib0 ''VN'') of
                                 Some v \<Rightarrow> v | None \<Rightarrow> JStr []))"
    by blast
  then have 2: "country_code_3digit lib0
        (dict_merge DEFAULT_COUNTRY_CODE_MAPPING [(''VN'', JStr ''999'')]) (JStr ''VN'')
       = Inr (JStr ''999'')"
    unfolding lib0_upper by simp
  from t1 c
  have 3: "fst (export_beyanname_excel lib0 DEFAULT_COUNTRY_CODE_MAPPING blank_sheet
                  override_example) = DEFAULT_COUNTRY_CODE_MAPPING"
    by blast
  note t2 = country_code_lookup [of no_items "[]" lib0 blank_sheet]
  from t2 n lib0_upper
  have 4: "country_code_3digit lib0 (dict_merge DEFAULT_COUNTRY_CODE_MAPPING []) (JStr ''VN'')
       = Inr (JStr ''690'')"
    and 5: "country_code_3digit lib0 (dict_merge DEFAULT_COUNTRY_CODE_MAPPING []) (JStr ''ZZ'')
       = Inr (JStr [])"
    by blast+
  show ?thesis
    by (intro conjI c 1 2 3 n 4 5)
qed

lemma upper_vn: "map upper_char ''vn'' = ''VN''"
  by code_simp

lemma lib0_upper_vn: "str_upper lib0 ''vn'' = ''VN''"
  unfolding lib0_def by (simp only: pylib.simps upper_vn)

text \<open>
  The claim as written fails for a lower-case code: \<^verbatim>\<open>vn\<close> is a key of neither map, and its
  lookup gives \<^verbatim>\<open>690\<close>, not the empty string.
\<close>

theorem country_code_lowercase_counterexample:
  "map_of DEFAULT_COUNTRY_CODE_MAPPING ''vn'' = None
   \<and> map_of ([] :: dict) ''vn'' = None
   \<and> country_code_3digit lib0 (dict_merge DEFAULT_COUNTRY_CODE_MAPPING []) (JStr ''vn'')
       = Inr (JStr ''690'')"
  by (simp add: DEFAULT_COUNTRY_CODE_MAPPING_def country_code_3digit_def dict_merge_def
      dict_get_def lib0_upper_vn)

section \<open>The static-template exporter: invoice value\<close>

lemma assign_values_Cons_Inr:
  "assign_values ws (w # xs) = Inr ws' \<longleftrightarrow>
     (\<exists>w1. assign_value ws (coordinate_to_tuple (fst w)) (snd w) = Inr w1
        \<and> assign_values w1 xs = Inr ws')"
  by (simp add: and_then_eq_Inr)

lemma assign_value_kind:
  "assign_value ws rc v = Inr ws' \<Longrightarrow> is_merged_cell (cell_at ws' rc') = is_merged_cell (cell_at ws rc')"
  by (auto simp: assign_value_Inr)

lemma assign_values_kind:
  "assign_values ws xs = Inr ws' \<Longrightarrow> is_merged_cell (cell_at ws' rc) = is_merged_cell (cell_at ws rc)"
proof (induction xs arbitrary: ws)
  case Nil
  then show ?case by simp
next
  case (Cons w xs)
  then show ?case
    unfolding assign_values_Cons_Inr using assign_value_kind by metis
qed

lemma assign_values_frame:
  "assign_values ws xs = Inr ws' \<Longrightarrow> rc \<notin> coordinate_to_tuple ` fst ` set xs
     \<Longrightarrow> cell_at ws' rc = cell_at ws rc"
proof (induction xs arbitrary: ws)
  case Nil
  then show ?case by simp
next
  case (Cons w xs)
  from Cons.prems(1) obtain w1 where
    w1: "assign_value ws (coordinate_to_tuple (fst w)) (snd w) = Inr w1"
    and rest: "assign_values w1 xs = Inr ws'"
    unfolding assign_values_Cons_Inr by blast
  from Cons.prems(2) have "rc \<noteq> coordinate_to_tuple (fst w)"
    and "rc \<notin> coordinate_to_tuple ` fst ` set xs" by auto
  with Cons.IH [OF rest] w1 show ?case
    by (auto simp: assign_value_Inr)
qed

lemma assign_values_value:
  "assign_values ws xs = Inr ws' \<Longrightarrow> distinct (map (\<lambda>w. coordinate_to_tuple (fst w)) xs)
     \<Longrightarrow> (ref, v) \<in> set xs \<Longrightarrow> value_of (cell_at ws' (coordinate_to_tuple ref)) = stored v"
proof (induction xs arbitrary: ws)
  case Nil
  then show ?case by simp
next
  case (Cons w xs)
  from Cons.prems(1) obtain w1 where
    w1: "assign_value ws (coordinate_to_tuple (fst w)) (snd w) = Inr w1"
    and rest: "assign_values w1 xs = Inr ws'"
    unfolding assign_values_Cons_Inr by blast
  show ?case
  proof (cases "(ref, v) \<in> set xs")
    case True
    with Cons.IH [OF rest] Cons.prems(2) show ?thesis by simp
  next
    case False
    with Cons.prems(3) have w: "w = (ref, v)" by simp
    with Cons.prems(2) have "coordinate_to_tuple ref \<notin> coordinate_to_tuple ` fst ` set xs"
      by (auto simp: image_iff)
    from assign_values_frame [OF rest this] w1 w show ?thesis
      by (auto simp: assign_value_Inr)
  qed
qed

text \<open>A run of assignments returns exactly when every value can be stored and no target is a
  placeholder.\<close>

lemma assign_values_returns:
  "(\<exists>ws'. assign_values ws xs = Inr ws') \<longleftrightarrow>
     (\<forall>w \<in> set xs. storable (snd w) \<and> \<not> is_merged_cell (cell_at ws (coordinate_to_tuple (fst w))))"
proof (induction xs arbitrary: ws)
  case Nil
  then show ?case by simp
next
  case (Cons w xs)
  show ?case
  proof (cases "storable (snd w) \<and> \<not> is_merged_cell (cell_at ws (coordinate_to_tuple (fst w)))")
    case False
    then show ?thesis
      unfolding assign_values_Cons_Inr by (auto simp: assign_value_Inr)
  next
    case True
    then obtain w1 where
      w1: "assign_value ws (coordinate_to_tuple (fst w)) (snd w) = Inr w1"
      using assign_value_cell by blast
    have "(\<exists>ws'. assign_values ws (w # xs) = Inr ws') \<longleftrightarrow> (\<exists>ws'. assign_values w1 xs = Inr ws')"
      unfolding assign_values_Cons_Inr w1 by simp
    also have "\<dots> \<longleftrightarrow> (\<forall>w \<in> set xs. storable (snd w)
                  \<and> \<not> is_merged_cell (cell_at w1 (coordinate_to_tuple (fst w))))"
      by (rule Cons.IH)
    also have "\<dots> \<longleftrightarrow> (\<forall>w \<in> set xs. storable (snd w)
                  \<and> \<not> is_merged_cell (cell_at ws (coordinate_to_tuple (fst w))))"
      by (simp add: assign_value_kind [OF w1])
    finally show ?thesis using True by simp
  qed
qed

lemma constants_storable [simp]:
  "storable (JStr ''1'')" "storable (JStr ''BI'')" "storable (JStr ''K1'')" "storable (JStr ''9'')"
  "storable (JStr [])" "storable (JStr ''11'')" "storable (JStr ''-'')" "storable (num_json n)"
  by (cases n; simp add: storable_def illegal_character_def)+

lemma set_number_format_kind [simp]:
  "is_merged_cell (cell_at (set_number_format ws rc nf) rc') = is_merged_cell (cell_at ws rc')"
  by (simp add: set_number_format_def)

lemma write_beyanname_row_returns:
  "(\<exists>ws'. write_beyanname_row ws row_num r = Inr ws') \<longleftrightarrow>
     row_storable r \<and> (\<forall>c \<in> set [1..<16]. \<not> is_merged_cell (cell_at ws (row_num, c)))"
proof -
  let ?xs = "[((''A'', row_num), row_tr_hs_code r),
              ((''B'', row_num), num_json (row_total_value r)),
              ((''C'', row_num), row_country_code r)]"
  let ?ys = "[((''D'', row_num), row_unit r),
        ((''E'', row_num), JStr ''1''),
        ((''F'', row_num), JStr ''BI''),
        ((''G'', row_num), row_brand r),
        ((''H'', row_num), JInt (row_unit_count r)),
        ((''I'', row_num), JStr ''K1''),
        ((''J'', row_num), JStr ''9''),
        ((''K'', row_num), JStr []),
        ((''L'', row_num), JStr ''11''),
        ((''M'', row_num), JStr (row_tanim r)),
        ((''N'', row_num), num_json (row_vat_percent r)),
        ((''O'', row_num), JStr ''-'')]"
  have "[1..<16] = [1, 2, 3, 4, 5, 6, 7, 8, 9, 10, 11, 12, 13, 14, 15 :: nat]"
    by (simp add: upt_rec)
  then have cols: "set [1..<16] = {1, 2, 3, 4, 5, 6, 7, 8, 9, 10, 11, 12, 13, 14, 15 :: nat}"
    by simp
  have a: "(\<exists>w1. assign_values ws ?xs = Inr w1) \<longleftrightarrow>
      storable (row_tr_hs_code r) \<and> storable (row_country_code r)
      \<and> (\<forall>c \<in> {1, 2, 3}. \<not> is_merged_cell (cell_at ws (row_num, c)))"
    unfolding assign_values_returns by (auto simp: coordinate_to_tuple_def)
  have b: "(\<exists>ws'. assign_values (set_number_format w1 (coordinate_to_tuple (''C'', row_num)) ''@'')
                    ?ys = Inr ws') \<longleftrightarrow>
      storable (row_unit r) \<and> storable (row_brand r) \<and> storable (JStr (row_tanim r))
      \<and> (\<forall>c \<in> {4, 5, 6, 7, 8, 9, 10, 11, 12, 13, 14, 15}.
            \<not> is_merged_cell (cell_at ws (row_num, c)))"
    if "assign_values ws ?xs = Inr w1" for w1
    unfolding assign_values_returns using assign_values_kind [OF that]
    by (auto simp: coordinate_to_tuple_def)
  have "(\<exists>ws'. write_beyanname_row ws row_num r = Inr ws') \<longleftrightarrow>
      (\<exists>w1. assign_values ws ?xs = Inr w1
         \<and> (\<exists>ws'. assign_values (set_number_format w1 (coordinate_to_tuple (''C'', row_num)) ''@'')
                    ?ys = Inr ws'))"
    unfolding write_beyanname_row_def and_then_eq_Inr by blast
  also have "\<dots> \<longleftrightarrow> (\<exists>w1. assign_values ws ?xs = Inr w1)
      \<and> storable (row_unit r) \<and> storable (row_brand r) \<and> storable (JStr (row_tanim r))
      \<and> (\<forall>c \<in> {4, 5, 6, 7, 8, 9, 10, 11, 12, 13, 14, 15}.
            \<not> is_merged_cell (cell_at ws (row_num, c)))"
    using b by blast
  finally show ?thesis
    unfolding a cols row_storable_def by auto
qed

lemma write_beyanname_row_cells:
  assumes "write_beyanname_row ws row_num r = Inr ws'"
  shows "value_of (cell_at ws' (row_num, 2)) = num_json (row_total_value r)"
    and "fst rc \<noteq> row_num \<Longrightarrow> cell_at ws' rc = cell_at ws rc"
    and "is_merged_cell (cell_at ws' rc) = is_merged_cell (cell_at ws rc)"
proof -
  from assms obtain w1 where
    a: "assign_values ws [((''A'', row_num), row_tr_hs_code r),
                  ((''B'', row_num), num_json (row_total_value r)),
                  ((''C'', row_num), row_country_code r)] = Inr w1"
    and b: "assign_values (set_number_format w1 (coordinate_to_tuple (''C'', row_num)) ''@'')
       [((''D'', row_num), row_unit r),
        ((''E'', row_num), JStr ''1''),
        ((''F'', row_num), JStr ''BI''),
        ((''G'', row_num), row_brand r),
        ((''H'', row_num), JInt (row_unit_count r)),
        ((''I'', row_num), JStr ''K1''),
        ((''J'', row_num), JStr ''9''),
        ((''K'', row_num), JStr []),
        ((''L'', row_num), JStr ''11''),
        ((''M'', row_num), JStr (row_tanim r)),
        ((''N'', row_num), num_json (row_vat_percent r)),
        ((''O'', row_num), JStr ''-'')] = Inr ws'"
    unfolding write_beyanname_row_def and_then_eq_Inr by blast
  have "value_of (cell_at w1 (row_num, 2)) = stored (num_json (row_total_value r))"
    using assign_values_value [OF a, of "(''B'', row_num)" "num_json (row_total_value r)"]
    by (simp add: coordinate_to_tuple_def)
  then have v1: "value_of (cell_at w1 (row_num, 2)) = num_json (row_total_value r)"
    by (cases "row_total_value r") simp_all
  have "cell_at ws' (row_num, 2)
        = cell_at (set_number_format w1 (coordinate_to_tuple (''C'', row_num)) ''@'') (row_num, 2)"
    by (rule assign_values_frame [OF b]) (simp add: coordinate_to_tuple_def)
  with v1 show "value_of (cell_at ws' (row_num, 2)) = num_json (row_total_value r)"
    by (simp add: set_number_format_def coordinate_to_tuple_def)
  from assign_values_kind [OF b, of rc] assign_values_kind [OF a, of rc]
  show "is_merged_cell (cell_at ws' rc) = is_merged_cell (cell_at ws rc)"
    by simp
  assume rc: "fst rc \<noteq> row_num"
  have "cell_at ws' rc = cell_at (set_number_format w1 (coordinate_to_tuple (''C'', row_num)) ''@'') rc"
    using rc by (intro assign_values_frame [OF b]) (auto simp: coordinate_to_tuple_def)
  also have "\<dots> = cell_at w1 rc"
    using rc by (auto simp: set_number_format_def coordinate_to_tuple_def)
  also have "\<dots> = cell_at ws rc"
    using rc by (intro assign_values_frame [OF a]) (auto simp: coordinate_to_tuple_def)
  finally show "cell_at ws' rc = cell_at ws rc" .
qed

lemma beyanname_items_Cons_Inr:
  "beyanname_items L m ws k (item # its) = Inr ws' \<longleftrightarrow>
     (\<exists>r w1. beyanname_values L m item = Inr r \<and> write_beyanname_row ws (2 + k) r = Inr w1
        \<and> beyanname_items L m w1 (Suc k) its = Inr ws')"
  by (simp add: and_then_eq_Inr)

lemma beyanname_items_frame:
  "beyanname_items L m ws k its = Inr ws' \<Longrightarrow> fst rc < 2 + k \<Longrightarrow> cell_at ws' rc = cell_at ws rc"
proof (induction its arbitrary: ws k)
  case Nil
  then show ?case by simp
next
  case (Cons item its)
  from Cons.prems(1) obtain r w1 where
    w1: "write_beyanname_row ws (2 + k) r = Inr w1"
    and rest: "beyanname_items L m w1 (Suc k) its = Inr ws'"
    unfolding beyanname_items_Cons_Inr by blast
  have "cell_at ws' rc = cell_at w1 rc"
    using Cons.IH [OF rest] Cons.prems(2) by simp
  also have "\<dots> = cell_at ws rc"
    using write_beyanname_row_cells(2) [OF w1, of rc] Cons.prems(2) by simp
  finally show ?case .
qed

lemma beyanname_items_column_B:
  "beyanname_items L m ws k its = Inr ws' \<Longrightarrow> i < length its \<Longrightarrow>
     \<exists>r. beyanname_values L m (its ! i) = Inr r
        \<and> value_of (cell_at ws' (2 + k + i, 2)) = num_json (row_total_value r)"
proof (induction its arbitrary: ws k i)
  case Nil
  then show ?case by simp
next
  case (Cons item its)
  from Cons.prems(1) obtain r w1 where
    r: "beyanname_values L m item = Inr r"
    and w1: "write_beyanname_row ws (2 + k) r = Inr w1"
    and rest: "beyanname_items L m w1 (Suc k) its = Inr ws'"
    unfolding beyanname_items_Cons_Inr by blast
  show ?case
  proof (cases i)
    case 0
    have "cell_at ws' (2 + k, 2) = cell_at w1 (2 + k, 2)"
      by (rule beyanname_items_frame [OF rest]) simp
    with r write_beyanname_row_cells(1) [OF w1] 0 show ?thesis by simp
  next
    case (Suc j)
    with Cons.prems(2) have "j < length its" by simp
    from Cons.IH [OF rest this] Suc show ?thesis by simp
  qed
qed

text \<open>The loop returns exactly when every item's values can be computed and stored and no
  target is a placeholder.\<close>

lemma beyanname_items_returns:
  "(\<exists>ws'. beyanname_items L m ws k its = Inr ws') \<longleftrightarrow>
     (\<forall>item \<in> set its. \<not> isl (beyanname_values L m item)
        \<and> row_storable (projr (beyanname_values L m item)))
   \<and> (\<forall>r \<in> set [2 + k..<2 + k + length its]. \<forall>c \<in> set [1..<16].
        \<not> is_merged_cell (cell_at ws (r, c)))"
proof (induction its arbitrary: ws k)
  case Nil
  then show ?case by simp
next
  case (Cons item its)
  let ?ok = "\<lambda>it. \<not> isl (beyanname_values L m it) \<and> row_storable (projr (beyanname_values L m it))"
  let ?free = "\<lambda>w r. \<forall>c \<in> set [1..<16]. \<not> is_merged_cell (cell_at w (r, c))"
  have rows: "(\<forall>r \<in> set [2 + k..<2 + k + length (item # its)]. ?free w r)
      \<longleftrightarrow> ?free w (2 + k) \<and> (\<forall>r \<in> set [2 + Suc k..<2 + Suc k + length its]. ?free w r)" for w
  proof -
    have "set [a..<a + Suc n] = insert a (set [Suc a..<Suc a + n])" for a n :: nat
      by auto
    from this [of "2 + k" "length its"] show ?thesis by simp
  qed
  show ?case
  proof (cases "beyanname_values L m item")
    case (Inl e)
    then show ?thesis
      unfolding beyanname_items_Cons_Inr by simp
  next
    case (Inr r)
    show ?thesis
    proof (cases "\<exists>w1. write_beyanname_row ws (2 + k) r = Inr w1")
      case False
      with Inr show ?thesis
        unfolding beyanname_items_Cons_Inr rows
        using write_beyanname_row_returns [of ws "2 + k" r] by auto
    next
      case True
      then obtain w1 where w1: "write_beyanname_row ws (2 + k) r = Inr w1" by blast
      from True have first: "row_storable r" "?free ws (2 + k)"
        using write_beyanname_row_returns [of ws "2 + k" r] by auto
      have "(\<exists>ws'. beyanname_items L m ws k (item # its) = Inr ws')
              \<longleftrightarrow> (\<exists>ws'. beyanname_items L m w1 (Suc k) its = Inr ws')"
        unfolding beyanname_items_Cons_Inr using Inr w1 by simp
      also have "\<dots> \<longleftrightarrow> (\<forall>it \<in> set its. ?ok it)
                  \<and> (\<forall>r \<in> set [2 + Suc k..<2 + Suc k + length its]. ?free w1 r)"
        by (rule Cons.IH)
      also have "(\<forall>r \<in> set [2 + Suc k..<2 + Suc k + length its]. ?free w1 r)
                  \<longleftrightarrow> (\<forall>r \<in> set [2 + Suc k..<2 + Suc k + length its]. ?free ws r)"
        by (simp add: write_beyanname_row_cells(3) [OF w1])
      finally show ?thesis
        unfolding rows using Inr first by simp
    qed
  qed
qed

lemma mul_py_float_int:
  "mul_py L (PFloat a) (PInt n) = Inr t \<longleftrightarrow>
     \<bar>n\<bar> < 2 ^ 1024 - 2 ^ 970 \<and> t = PFloat (float_mul L a (float_of_int L n))"
  unfolding mul_py.simps float_op_def as_float.simps float_of_int_py_def
  by (cases "\<bar>n\<bar> < 2 ^ 1024 - 2 ^ 970") (simp_all only: if_True if_False and_then_Inr
      and_then_Inl sum.inject, auto)

lemma beyanname_values_total:
  "beyanname_values L m item = Inr r \<Longrightarrow>
     \<exists>cost unit_count. float_py L (dict_get item ''cost'' (JInt 0)) = Inr cost
        \<and> int_py L (dict_get item ''unit_count'' (JInt 0)) = Inr unit_count
        \<and> \<bar>unit_count\<bar> < 2 ^ 1024 - 2 ^ 970
        \<and> row_total_value r = PFloat (float_mul L cost (float_of_int L unit_count))"
  unfolding beyanname_values_def Let_def
  by (simp only: and_then_eq_Inr mul_py_float_int) auto

lemma export_beyanname_excel_Inr:
  "snd (export_beyanname_excel L defaults template data) = Inr (path, out) \<longleftrightarrow>
     (\<exists>m. country_code_mapping defaults data = Inr m
        \<and> beyanname_items L m template 0 (items data) = Inr out
        \<and> path = ''/tmp/beyanname_''
               @ fstring L (dict_get (calculation data) ''reference'' (JStr ''export'')) @ ''_''
               @ fstring L (case timestamp data of None \<Rightarrow> JStr [] | Some v \<Rightarrow> v) @ ''.xlsx'')"
  unfolding export_beyanname_excel_def by (auto simp: and_then_eq_Inr)


lemma beyanname_example_items:
  "items beyanname_example ! 0
     = [(''cost'', JStr ''12.5''), (''unit_count'', JInt 3), (''total_value'', JFloat f_100),
        (''country_of_origin'', JStr ''vn'')]"
  "items beyanname_example ! 1
     = [(''cost'', JFloat f_7), (''unit_count'', JStr ''3''), (''total_value'', JFloat f_100)]"
  "length (items beyanname_example) = 2"
  "customMappings beyanname_example = None"
  by (simp_all add: beyanname_example_def)

lemma beyanname_example_values:
  "beyanname_values lib0 (dict_merge DEFAULT_COUNTRY_CODE_MAPPING [])
       [(''cost'', JStr ''12.5''), (''unit_count'', JInt 3), (''total_value'', JFloat f_100),
        (''country_of_origin'', JStr ''vn'')]
     = Inr \<lparr>row_tr_hs_code = JStr [], row_total_value = PFloat f_37_5, row_unit = JStr [],
            row_brand = JStr [], row_unit_count = 3, row_country_code = JStr ''690'',
            row_tanim = [], row_vat_percent = PInt 0\<rparr>"
  "beyanname_values lib0 (dict_merge DEFAULT_COUNTRY_CODE_MAPPING [])
       [(''cost'', JFloat f_7), (''unit_count'', JStr ''3''), (''total_value'', JFloat f_100)]
     = Inr \<lparr>row_tr_hs_code = JStr [], row_total_value = PFloat f_21, row_unit = JStr [],
            row_brand = JStr [], row_unit_count = 3, row_country_code = JStr [],
            row_tanim = [], row_vat_percent = PInt 0\<rparr>"
  by (simp_all add: beyanname_values_def dict_get_def get_if_def float_op_def
      country_code_3digit_def lib0_upper_vn dict_merge_def DEFAULT_COUNTRY_CODE_MAPPING_def)

lemma beyanname_example_ok: "beyanname_ok lib0 blank_sheet beyanname_example"
proof -
  have m: "country_code_mapping DEFAULT_COUNTRY_CODE_MAPPING beyanname_example
             = Inr (dict_merge DEFAULT_COUNTRY_CODE_MAPPING [])"
    by (simp add: country_code_mapping_def beyanname_example_def)
  have its: "set (items beyanname_example)
      = {[(''cost'', JStr ''12.5''), (''unit_count'', JInt 3), (''total_value'', JFloat f_100),
          (''country_of_origin'', JStr ''vn'')],
         [(''cost'', JFloat f_7), (''unit_count'', JStr ''3''), (''total_value'', JFloat f_100)]}"
    by (simp add: beyanname_example_def)
  have s: "storable (JStr ''690'')"
    by (simp add: storable_def illegal_character_def)
  show ?thesis
    unfolding beyanname_ok_def m its
    by (simp add: beyanname_example_values row_storable_def s blank_sheet_def cell_at_def)
qed


end
